theory Spec2Isabelle
  imports Complex_Main "HOL-Library.Log_Nat" "HOL-Library.Word"
begin

section \<open>Datos.py: download of hourly weather history into a CSV file\<close>

text \<open>
  The script \<^verbatim>\<open>Datos.py\<close> issues one GET request to the Open-Meteo archive, turns the
  \<^verbatim>\<open>hourly\<close> block of the JSON answer into a pandas DataFrame, rescales two wind columns,
  renames and reorders the columns, reformats the timestamps and writes a CSV file.

  The calls into \<^verbatim>\<open>requests\<close>, \<^verbatim>\<open>pandas\<close>, \<^verbatim>\<open>os\<close> and \<^verbatim>\<open>datetime\<close> are library code.
  They are modelled as follows.
  \<^item> A JSON number is an integer or a float. Floats are values of an arbitrary type
    \<open>'f\<close>; the arithmetic of the interpreter (the binary64 product, the value of a decimal
    literal, the conversion of an integer) is a parameter, the record \<open>library\<close>, and no
    property of it is assumed. A concrete instance, \<open>lib_b64\<close>, rounds as binary64 does.
  \<^item> \<^verbatim>\<open>pd.to_datetime\<close> is a parameter of the same record: it maps a column to timestamps
    (\<open>None\<close> is pandas' NaT) or raises.
  \<^item> The outside world of one run is the record \<open>env\<close>: the clock, the answer of the
    server to the request, which paths can be removed, how a write to a path ends, what
    the console raises on a message, and whether the standard output can be flushed at
    exit.
  \<^item> What the run changes is the record \<open>world\<close>: the files and the console.
  \<^item> An exception is a value of type \<open>exn\<close>. A computation that may raise returns
    \<open>exn + 'a\<close>, with \<open>Inl\<close> for the exception; a statement that may raise after it has
    changed the world returns the exception (if any) and the world it leaves.
\<close>

subsection \<open>Values, tables, exceptions\<close>

text \<open>
  The scalars of a JSON array: null, a boolean, an integer, a float, a string. The
  integers are those of 64 bits, the range of the integer columns of pandas. In a
  table, \<open>CNull\<close> is a missing value (\<^verbatim>\<open>None\<close>, NaN, NaT), which a CSV file shows as an
  empty field.
\<close>

datatype 'f cell = CNull | CBool bool | CInt "64 word" | CFloat 'f | CStr string

type_synonym 'f series = "'f cell list"

type_synonym 'f dataframe = "(string \<times> 'f series) list"

datatype exn =
    HTTPError | ConnectionError | JSONDecodeError | KeyError | ValueError | TypeError
  | OSError | UnicodeEncodeError | UnboundLocalError

record datetime =
  year :: nat
  month :: nat
  day :: nat
  hour :: nat
  minute :: nat
  second :: nat

record 'f library =
  fmul :: "'f \<Rightarrow> 'f \<Rightarrow> 'f"
  of_lit :: "rat \<Rightarrow> 'f"
  float_of_int :: "int \<Rightarrow> 'f"
  to_datetime :: "'f series \<Rightarrow> exn + datetime option list"

definition andThen :: "exn + 'a \<Rightarrow> ('a \<Rightarrow> exn + 'b) \<Rightarrow> exn + 'b" where
  "andThen m f = (case m of Inl e \<Rightarrow> Inl e | Inr x \<Rightarrow> f x)"

subsection \<open>The request and its answer\<close>

datatype 'f pval = PNum 'f | PStr string

record 'f request =
  url :: string
  query :: "(string \<times> 'f pval) list"

text \<open>
  The document that \<^verbatim>\<open>response.json()\<close> returns, as \<^verbatim>\<open>data["hourly"]\<close> sees it: a value
  that is not an object (an array, a string, a number, null), an object without the key
  \<^verbatim>\<open>hourly\<close>, or an object whose \<^verbatim>\<open>hourly\<close> member maps names to arrays of scalars, as
  the API documents it, with its keys in the order of the document (the keys of a
  \<^verbatim>\<open>dict\<close> are distinct). The payload of an answer is \<open>None\<close> when its body is not JSON.
\<close>

datatype 'f json =
    NotObject
  | NoHourly
  | Hourly "(string \<times> 'f cell list) list"

record 'f response =
  status_code :: nat
  body_text :: string
  payload :: "'f json option"

datatype 'f fetch = NetworkFailure | Response "'f response"

subsection \<open>Files, console, environment\<close>

text \<open>A CSV file: its header line and its data lines. The empty file has neither.\<close>

record 'f csv =
  header :: "string list"
  rows :: "'f cell list list"

datatype 'f msg =
    Descargando string string
  | ArchivoEliminado string
  | Solicitando string string
  | DatosRecibidos
  | RegistrosGuardados nat string
  | Tail "string list" "'f cell list list"
  | ErrorHTTP exn
  | RespuestaServidor string
  | ErrorInesperado exn

record 'f world =
  files :: "string \<Rightarrow> 'f csv option"
  console :: "'f msg list"

text \<open>
  How a write to a path ends: the path cannot be opened; it is opened (and so
  truncated) and the write fails after a number of lines; the write completes.
\<close>

datatype write_outcome = CannotOpen | FailsAfter nat | Completes

record 'f env =
  now :: datetime
  requests_get :: "'f request \<Rightarrow> 'f fetch"
  removable :: "string \<Rightarrow> bool"
  write_outcome :: "string \<Rightarrow> write_outcome"
  print_raises :: "'f msg \<Rightarrow> exn option"
  flush_ok :: bool

text \<open>The world after a print that went through.\<close>

definition logged :: "'f msg \<Rightarrow> 'f world \<Rightarrow> 'f world" where
  "logged m w = w\<lparr>console := console w @ [m]\<rparr>"

text \<open>
  \<^verbatim>\<open>print(...)\<close>. It raises when the console cannot take the message: UnicodeEncodeError
  for a character that the encoding of the console lacks (the emoji of the messages,
  text of the server), OSError for a stream that fails. No message is printed twice in
  a run, so that a function of the message covers every pattern of failing prints.
\<close>

definition printable :: "'f env \<Rightarrow> 'f msg \<Rightarrow> bool" where
  "printable ev m = (print_raises ev m = None)"

definition print :: "'f env \<Rightarrow> 'f msg \<Rightarrow> 'f world \<Rightarrow> exn + 'f world" where
  "print ev m w = (case print_raises ev m of None \<Rightarrow> Inr (logged m w) | Some e \<Rightarrow> Inl e)"

text \<open>The messages that are printed inside the \<^verbatim>\<open>try\<close> statement, before its handlers.\<close>

fun printed_in_try :: "'f msg \<Rightarrow> bool" where
  "printed_in_try DatosRecibidos = True"
| "printed_in_try (RegistrosGuardados _ _) = True"
| "printed_in_try (Tail _ _) = True"
| "printed_in_try _ = False"

subsection \<open>Formatting dates\<close>

definition digit :: "nat \<Rightarrow> char" where
  "digit d = ''0123456789'' ! d"

text \<open>The last \<open>w\<close> decimal digits of \<open>n\<close>: the zero-padded decimal of \<open>n\<close> when \<open>n < 10 ^ w\<close>.\<close>

fun zpad :: "nat \<Rightarrow> nat \<Rightarrow> string" where
  "zpad 0 n = []"
| "zpad (Suc w) n = zpad w (n div 10) @ [digit (n mod 10)]"

definition directive :: "char \<Rightarrow> datetime \<Rightarrow> string" where
  "directive c d =
     (if c = CHR ''Y'' then zpad 4 (year d)
      else if c = CHR ''m'' then zpad 2 (month d)
      else if c = CHR ''d'' then zpad 2 (day d)
      else if c = CHR ''H'' then zpad 2 (hour d)
      else if c = CHR ''M'' then zpad 2 (minute d)
      else if c = CHR ''S'' then zpad 2 (second d)
      else [CHR ''%'', c])"

fun strftime :: "string \<Rightarrow> datetime \<Rightarrow> string" where
  "strftime [] d = []"
| "strftime [c] d = [c]"
| "strftime (c # c' # cs) d =
     (if c = CHR ''%'' then directive c' d @ strftime cs d
      else c # strftime (c' # cs) d)"

subsection \<open>The pandas operations the script uses\<close>

definition len :: "'f dataframe \<Rightarrow> nat" where
  "len df = (case df of [] \<Rightarrow> 0 | c # _ \<Rightarrow> length (snd c))"

definition is_str :: "'f cell \<Rightarrow> bool" where
  "is_str c = (case c of CStr _ \<Rightarrow> True | _ \<Rightarrow> False)"

definition is_bool :: "'f cell \<Rightarrow> bool" where
  "is_bool c = (case c of CBool _ \<Rightarrow> True | _ \<Rightarrow> False)"

definition is_float :: "'f cell \<Rightarrow> bool" where
  "is_float c = (case c of CFloat _ \<Rightarrow> True | _ \<Rightarrow> False)"

definition is_null :: "'f cell \<Rightarrow> bool" where
  "is_null c = (case c of CNull \<Rightarrow> True | _ \<Rightarrow> False)"

text \<open>
  The dtype that pandas infers for an array. An array with a string or a boolean keeps
  its values (dtype object, or bool). An array of numbers and nulls that holds a float
  or a null becomes a float64 column: its integers are converted and null is NaN. An
  array of integers only, and an array of nulls only, keep their values.
\<close>

definition to_float64 :: "'f library \<Rightarrow> 'f cell \<Rightarrow> 'f cell" where
  "to_float64 lib c = (case c of CInt n \<Rightarrow> CFloat (float_of_int lib (sint n)) | _ \<Rightarrow> c)"

definition infer_column :: "'f library \<Rightarrow> 'f cell list \<Rightarrow> 'f series" where
  "infer_column lib col =
     (if \<not> list_ex is_str col \<and> \<not> list_ex is_bool col \<and>
         (list_ex is_float col \<or> list_ex is_null col)
      then map (to_float64 lib) col
      else col)"

text \<open>\<^verbatim>\<open>pd.DataFrame(d)\<close> for a dict of arrays: the arrays must have one length.\<close>

definition DataFrame :: "'f library \<Rightarrow> (string \<times> 'f cell list) list \<Rightarrow> exn + 'f dataframe" where
  "DataFrame lib d =
     (if list_all (\<lambda>c. length (snd c) = len d) d
      then Inr (map (\<lambda>c. (fst c, infer_column lib (snd c))) d)
      else Inl ValueError)"

text \<open>
  \<^verbatim>\<open>df[k]\<close> as a Series. A label that is absent raises KeyError. A label that occurs
  twice gives a DataFrame, on which \<^verbatim>\<open>pd.to_datetime\<close> raises ValueError.
\<close>

definition getitem :: "'f dataframe \<Rightarrow> string \<Rightarrow> exn + 'f series" where
  "getitem df k =
     (case filter (\<lambda>c. fst c = k) df of
        [] \<Rightarrow> Inl KeyError
      | [c] \<Rightarrow> Inr (snd c)
      | _ \<Rightarrow> Inl ValueError)"

text \<open>
  \<^verbatim>\<open>s * 3.6\<close> on a Series: the float product, cell by cell, an integer or a boolean
  being converted first. A missing value stays missing. The product of a string with a
  float raises TypeError.
\<close>

definition cell_mul :: "'f library \<Rightarrow> 'f \<Rightarrow> 'f cell \<Rightarrow> 'f cell" where
  "cell_mul lib k c =
     (case c of
        CInt n \<Rightarrow> CFloat (fmul lib (float_of_int lib (sint n)) k)
      | CBool b \<Rightarrow> CFloat (fmul lib (float_of_int lib (if b then 1 else 0)) k)
      | CFloat x \<Rightarrow> CFloat (fmul lib x k)
      | _ \<Rightarrow> CNull)"

definition series_mul :: "'f library \<Rightarrow> 'f series \<Rightarrow> 'f \<Rightarrow> exn + 'f series" where
  "series_mul lib s k =
     (if list_ex is_str s then Inl TypeError else Inr (map (cell_mul lib k) s))"

text \<open>\<^verbatim>\<open>df[k] = s\<close>: replaces the column in place, or appends a new one.\<close>

definition setitem :: "'f dataframe \<Rightarrow> string \<Rightarrow> 'f series \<Rightarrow> exn + 'f dataframe" where
  "setitem df k s =
     (if df \<noteq> [] \<and> length s \<noteq> len df then Inl ValueError
      else if k \<in> set (map fst df)
        then Inr (map (\<lambda>c. if fst c = k then (k, s) else c) df)
        else Inr (df @ [(k, s)]))"

definition rename_label :: "(string \<times> string) list \<Rightarrow> string \<Rightarrow> string" where
  "rename_label t k = (case map_of t k of None \<Rightarrow> k | Some k' \<Rightarrow> k')"

definition rename :: "'f dataframe \<Rightarrow> (string \<times> string) list \<Rightarrow> 'f dataframe" where
  "rename df t = map (\<lambda>c. (rename_label t (fst c), snd c)) df"

text \<open>
  \<^verbatim>\<open>df[names]\<close>: for each name in turn, every column with that label; KeyError when a
  name labels no column.
\<close>

definition select :: "'f dataframe \<Rightarrow> string list \<Rightarrow> exn + 'f dataframe" where
  "select df names =
     (if list_all (\<lambda>n. n \<in> set (map fst df)) names
      then Inr (concat (map (\<lambda>n. filter (\<lambda>c. fst c = n) df) names))
      else Inl KeyError)"

definition dt_strftime :: "datetime option list \<Rightarrow> string \<Rightarrow> 'f series" where
  "dt_strftime ts fmt = map (\<lambda>t. case t of None \<Rightarrow> CNull | Some d \<Rightarrow> CStr (strftime fmt d)) ts"

definition table_rows :: "'f dataframe \<Rightarrow> 'f cell list list" where
  "table_rows df = map (\<lambda>i. map (\<lambda>c. snd c ! i) df) [0..<len df]"

definition tail :: "nat \<Rightarrow> 'a list \<Rightarrow> 'a list" where
  "tail n xs = drop (length xs - n) xs"

text \<open>
  \<^verbatim>\<open>df.to_csv(path, index=False)\<close> writes the header line and one line per row. A path
  that cannot be opened raises OSError and leaves the files as they are. Opening the
  path truncates it; a write that fails later raises OSError and leaves the lines
  written so far.
\<close>

definition csv_of :: "'f dataframe \<Rightarrow> 'f csv" where
  "csv_of df = \<lparr>header = map fst df, rows = table_rows df\<rparr>"

definition first_lines :: "nat \<Rightarrow> 'f csv \<Rightarrow> 'f csv" where
  "first_lines n f =
     (if n = 0 then \<lparr>header = [], rows = []\<rparr> else f\<lparr>rows := take (n - 1) (rows f)\<rparr>)"

definition to_csv ::
  "'f env \<Rightarrow> 'f dataframe \<Rightarrow> string \<Rightarrow> 'f world \<Rightarrow> exn option \<times> 'f world" where
  "to_csv ev df path w =
     (case write_outcome ev path of
        CannotOpen \<Rightarrow> (Some OSError, w)
      | FailsAfter n \<Rightarrow>
          (Some OSError, w\<lparr>files := (files w)(path \<mapsto> first_lines n (csv_of df))\<rparr>)
      | Completes \<Rightarrow> (None, w\<lparr>files := (files w)(path \<mapsto> csv_of df)\<rparr>))"

subsection \<open>The script\<close>

definition api_url :: string where
  "api_url = ''https://archive-api.open-meteo.com/v1/archive''"

definition variables_horarias :: "string list" where
  "variables_horarias =
     [''temperature_2m'', ''relative_humidity_2m'', ''dewpoint_2m'', ''pressure_msl'',
      ''precipitation'', ''wind_speed_10m'', ''wind_gusts_10m'', ''wind_direction_10m'',
      ''weathercode'']"

text \<open>\<^verbatim>\<open>",".join(xs)\<close>\<close>

fun join :: "string \<Rightarrow> string list \<Rightarrow> string" where
  "join sep [] = []"
| "join sep [x] = x"
| "join sep (x # y # ys) = x @ sep @ join sep (y # ys)"

definition params :: "'f \<Rightarrow> 'f \<Rightarrow> string \<Rightarrow> string \<Rightarrow> (string \<times> 'f pval) list" where
  "params lat lon start_date end_date =
     [(''latitude'', PNum lat),
      (''longitude'', PNum lon),
      (''start_date'', PStr start_date),
      (''end_date'', PStr end_date),
      (''hourly'', PStr (join '','' variables_horarias)),
      (''timezone'', PStr ''America/Mexico_City'')]"

text \<open>The last label ends in the degree sign, two bytes in UTF-8.\<close>

definition viento_direccion :: string where
  "viento_direccion = ''viento_direccion_'' @ [CHR 0xC2, CHR 0xB0]"

definition renombrar :: "(string \<times> string) list" where
  "renombrar =
     [(''time'', ''fecha_hora''),
      (''temperature_2m'', ''temperatura_C''),
      (''relative_humidity_2m'', ''humedad_%''),
      (''dewpoint_2m'', ''punto_rocio_C''),
      (''pressure_msl'', ''presion_hPa''),
      (''precipitation'', ''precipitacion_mm''),
      (''wind_speed_10m'', ''viento_velocidad_kmh''),
      (''wind_gusts_10m'', ''viento_rafaga_kmh''),
      (''wind_direction_10m'', viento_direccion),
      (''weathercode'', ''codigo_clima_wmo'')]"

definition columnas_finales :: "string list" where
  "columnas_finales =
     [''fecha_hora'', ''temperatura_C'', ''humedad_%'', ''punto_rocio_C'',
      ''presion_hPa'', ''precipitacion_mm'', ''viento_velocidad_kmh'',
      ''viento_rafaga_kmh'', viento_direccion, ''codigo_clima_wmo'']"

text \<open>Steps 3 to 7 of the function: from the \<^verbatim>\<open>hourly\<close> object to the table that is written.\<close>

definition transformar :: "'f library \<Rightarrow> (string \<times> 'f cell list) list \<Rightarrow> exn + 'f dataframe" where
  "transformar lib h =
     andThen (DataFrame lib h) (\<lambda>df0.
     andThen (getitem df0 ''wind_speed_10m'') (\<lambda>speed.
     andThen (series_mul lib speed (of_lit lib (36 / 10))) (\<lambda>speed_kmh.
     andThen (setitem df0 ''wind_speed_10m'' speed_kmh) (\<lambda>df1.
     andThen (getitem df1 ''wind_gusts_10m'') (\<lambda>gusts.
     andThen (series_mul lib gusts (of_lit lib (36 / 10))) (\<lambda>gusts_kmh.
     andThen (setitem df1 ''wind_gusts_10m'' gusts_kmh) (\<lambda>df2.
     andThen (select (rename df2 renombrar) columnas_finales) (\<lambda>df3.
     andThen (getitem df3 ''fecha_hora'') (\<lambda>fechas.
     andThen (to_datetime lib fechas) (\<lambda>ts.
     setitem df3 ''fecha_hora'' (dt_strftime ts ''%Y-%m-%dT%H:%M'')))))))))))"

text \<open>\<^verbatim>\<open>response.raise_for_status()\<close>\<close>

definition raise_for_status :: "'f response \<Rightarrow> exn + unit" where
  "raise_for_status r =
     (if 400 \<le> status_code r \<and> status_code r < 600 then Inl HTTPError else Inr ())"

text \<open>
  The body of the \<^verbatim>\<open>try\<close> statement. The result is the exception that left the body (if
  any), the binding of the variable \<^verbatim>\<open>response\<close> at that moment, and the world.
\<close>

definition try_body ::
  "'f library \<Rightarrow> 'f env \<Rightarrow> 'f request \<Rightarrow> string \<Rightarrow> 'f world
     \<Rightarrow> exn option \<times> 'f response option \<times> 'f world" where
  "try_body lib ev req archivo_csv w =
     (case requests_get ev req of
        NetworkFailure \<Rightarrow> (Some ConnectionError, None, w)
      | Response r \<Rightarrow>
     (case raise_for_status r of
        Inl e \<Rightarrow> (Some e, Some r, w)
      | Inr _ \<Rightarrow>
     (case payload r of
        None \<Rightarrow> (Some JSONDecodeError, Some r, w)
      | Some data \<Rightarrow>
     (case print ev DatosRecibidos w of
        Inl e \<Rightarrow> (Some e, Some r, w)
      | Inr w1 \<Rightarrow>
     (case data of
        NotObject \<Rightarrow> (Some TypeError, Some r, w1)
      | NoHourly \<Rightarrow> (Some KeyError, Some r, w1)
      | Hourly h \<Rightarrow>
     (case transformar lib h of
        Inl e \<Rightarrow> (Some e, Some r, w1)
      | Inr df \<Rightarrow>
     (case to_csv ev df archivo_csv w1 of
        (Some e, w2) \<Rightarrow> (Some e, Some r, w2)
      | (None, w2) \<Rightarrow>
     (case print ev (RegistrosGuardados (len df) archivo_csv) w2 of
        Inl e \<Rightarrow> (Some e, Some r, w2)
      | Inr w3 \<Rightarrow>
     (case print ev (Tail (map fst df) (tail 3 (table_rows df))) w3 of
        Inl e \<Rightarrow> (Some e, Some r, w3)
      | Inr w4 \<Rightarrow> (None, Some r, w4))))))))))"

text \<open>
  The function. The first component of the result is the exception that reaches the
  caller, \<open>None\<close> when the function returns. The first print stands before the \<^verbatim>\<open>try\<close>
  statement, and the prints of a handler are not protected by the other handler: what
  they raise reaches the caller. The first handler reads the variable \<^verbatim>\<open>response\<close>,
  which is unbound when \<^verbatim>\<open>requests.get\<close> itself raised.
\<close>

definition descargar_datos_historicos ::
  "'f library \<Rightarrow> 'f env \<Rightarrow> 'f \<Rightarrow> 'f \<Rightarrow> string \<Rightarrow> string \<Rightarrow> string \<Rightarrow> 'f world
     \<Rightarrow> exn option \<times> 'f world" where
  "descargar_datos_historicos lib ev lat lon start_date end_date archivo_csv w =
     (case print ev (Solicitando start_date end_date) w of
        Inl e \<Rightarrow> (Some e, w)
      | Inr w0 \<Rightarrow>
     (case try_body lib ev \<lparr>url = api_url, query = params lat lon start_date end_date\<rparr>
             archivo_csv w0 of
        (None, _, w1) \<Rightarrow> (None, w1)
      | (Some e, resp, w1) \<Rightarrow>
          if e = HTTPError then
            (case print ev (ErrorHTTP e) w1 of
               Inl e' \<Rightarrow> (Some e', w1)
             | Inr w2 \<Rightarrow>
            (case resp of
               None \<Rightarrow> (Some UnboundLocalError, w2)
             | Some r \<Rightarrow>
            (case print ev (RespuestaServidor (body_text r)) w2 of
               Inl e' \<Rightarrow> (Some e', w2)
             | Inr w3 \<Rightarrow> (None, w3))))
          else
            (case print ev (ErrorInesperado e) w1 of
               Inl e' \<Rightarrow> (Some e', w1)
             | Inr w2 \<Rightarrow> (None, w2))))"

subsection \<open>The main block\<close>

definition LATITUD :: "'f library \<Rightarrow> 'f" where
  "LATITUD lib = of_lit lib (195047 / 10000)"

definition LONGITUD :: "'f library \<Rightarrow> 'f" where
  "LONGITUD lib = of_lit lib (- 991469 / 10000)"

definition FECHA_INICIO :: string where
  "FECHA_INICIO = ''2024-01-01''"

definition FECHA_FIN :: "'f env \<Rightarrow> string" where
  "FECHA_FIN ev = strftime ''%Y-%m-%d'' (now ev)"

definition ARCHIVO_SALIDA :: string where
  "ARCHIVO_SALIDA = ''historico_clima_2024-2025_CDMX2.csv''"






text \<open>The table that \<^verbatim>\<open>df[k] = s\<close> leaves when the label \<open>k\<close> is present.\<close>

definition replace_column :: "string \<Rightarrow> 'f series \<Rightarrow> 'f dataframe \<Rightarrow> 'f dataframe" where
  "replace_column k s df = map (\<lambda>c. if fst c = k then (k, s) else c) df"

subsection \<open>Reading a column of the written file\<close>

text \<open>The column that a reader of the CSV file finds under a name of the header line.\<close>

fun position :: "'a \<Rightarrow> 'a list \<Rightarrow> nat option" where
  "position x [] = None"
| "position x (y # ys) = (if x = y then Some 0 else map_option Suc (position x ys))"

definition csv_column :: "'f csv \<Rightarrow> string \<Rightarrow> 'f cell list option" where
  "csv_column f name = map_option (\<lambda>i. map (\<lambda>r. r ! i) (rows f)) (position name (header f))"

subsection \<open>Calendar dates and the timestamp layout\<close>

definition is_leap :: "nat \<Rightarrow> bool" where
  "is_leap y = (y mod 4 = 0 \<and> (y mod 100 \<noteq> 0 \<or> y mod 400 = 0))"

definition days_in_month :: "nat \<Rightarrow> nat \<Rightarrow> nat" where
  "days_in_month y m =
     (if m = 2 then (if is_leap y then 29 else 28)
      else if m = 4 \<or> m = 6 \<or> m = 9 \<or> m = 11 then 30
      else 31)"

text \<open>
  The values a \<^verbatim>\<open>datetime\<close> or a pandas \<^verbatim>\<open>Timestamp\<close> can hold, with a year of four digits
  (a \<^verbatim>\<open>Timestamp\<close> lies between the years 1677 and 2262).
\<close>

definition valid_datetime :: "datetime \<Rightarrow> bool" where
  "valid_datetime d =
     (1000 \<le> year d \<and> year d \<le> 9999 \<and> 1 \<le> month d \<and> month d \<le> 12 \<and>
      1 \<le> day d \<and> day d \<le> days_in_month (year d) (month d) \<and>
      hour d < 24 \<and> minute d < 60 \<and> second d < 60)"

definition is_digit :: "char \<Rightarrow> bool" where
  "is_digit c = (c \<in> set ''0123456789'')"

definition digit_val :: "char \<Rightarrow> nat" where
  "digit_val c = of_char c - 48"

fun read_nat :: "nat \<Rightarrow> string \<Rightarrow> nat option" where
  "read_nat acc [] = Some acc"
| "read_nat acc (c # cs) =
     (if is_digit c then read_nat (10 * acc + digit_val c) cs else None)"

text \<open>The layout \<^verbatim>\<open>YYYY-MM-DDTHH:MM\<close>: sixteen characters, digits around fixed separators.\<close>

definition formato_fecha_hora :: "string \<Rightarrow> bool" where
  "formato_fecha_hora s =
     (length s = 16 \<and>
      list_all is_digit (take 4 s) \<and> s ! 4 = CHR ''-'' \<and>
      list_all is_digit (take 2 (drop 5 s)) \<and> s ! 7 = CHR ''-'' \<and>
      list_all is_digit (take 2 (drop 8 s)) \<and> s ! 10 = CHR ''T'' \<and>
      list_all is_digit (take 2 (drop 11 s)) \<and> s ! 13 = CHR '':'' \<and>
      list_all is_digit (drop 14 s))"

text \<open>
  Reading a string of that layout back, as \<^verbatim>\<open>strptime(s, "%Y-%m-%dT%H:%M")\<close> does on it:
  the five fields, checked against the calendar; seconds are zero.
\<close>

definition strptime_fecha_hora :: "string \<Rightarrow> datetime option" where
  "strptime_fecha_hora s =
     (if length s = 16 \<and> s ! 4 = CHR ''-'' \<and> s ! 7 = CHR ''-'' \<and> s ! 10 = CHR ''T'' \<and>
         s ! 13 = CHR '':''
      then
        (case read_nat 0 (take 4 s) of None \<Rightarrow> None | Some y \<Rightarrow>
         case read_nat 0 (take 2 (drop 5 s)) of None \<Rightarrow> None | Some m \<Rightarrow>
         case read_nat 0 (take 2 (drop 8 s)) of None \<Rightarrow> None | Some d \<Rightarrow>
         case read_nat 0 (take 2 (drop 11 s)) of None \<Rightarrow> None | Some h \<Rightarrow>
         case read_nat 0 (drop 14 s) of None \<Rightarrow> None | Some mi \<Rightarrow>
           (let t = \<lparr>year = y, month = m, day = d, hour = h, minute = mi, second = 0\<rparr>
            in if valid_datetime t then Some t else None))
      else None)"

text \<open>
  The end date in the words of the specification: the calendar day before the day of
  the clock (\<^verbatim>\<open>datetime.now() - timedelta(days=1)\<close>).
\<close>

definition spec_yesterday :: "datetime \<Rightarrow> datetime" where
  "spec_yesterday d =
     (if 1 < day d then d\<lparr>day := day d - 1\<rparr>
      else if 1 < month d
        then d\<lparr>month := month d - 1, day := days_in_month (year d) (month d - 1)\<rparr>
      else d\<lparr>year := year d - 1, month := 12, day := 31\<rparr>)"

definition spec_FECHA_FIN :: "'f env \<Rightarrow> string" where
  "spec_FECHA_FIN ev = strftime ''%Y-%m-%d'' (spec_yesterday (now ev))"

subsection \<open>Binary64 arithmetic\<close>

text \<open>
  Rounding to the nearest binary64 number, ties to even, for a rational in the normal
  range (no overflow to infinity, no subnormal numbers): the significand has 53 bits.
  A float is written as the rational it equals.
\<close>

definition pow2 :: "int \<Rightarrow> rat" where
  "pow2 e = (if 0 \<le> e then 2 ^ nat e else 1 / 2 ^ nat (- e))"

definition b64_round :: "rat \<Rightarrow> rat" where
  "b64_round x =
     (if x = 0 then 0
      else
        (let a = \<bar>x\<bar>;
             d = bitlen (fst (quotient_of a)) - bitlen (snd (quotient_of a));
             e = (if pow2 d \<le> a then d else d - 1) - 52;
             m = a / pow2 e;
             f = \<lfloor>m\<rfloor>;
             r = m - of_int f;
             n = (if r < 1 / 2 then f
                  else if 1 / 2 < r then f + 1
                  else if even f then f else f + 1)
         in sgn x * of_int n * pow2 e))"

subsection \<open>A concrete library and concrete runs\<close>

text \<open>
  For \<^verbatim>\<open>pd.to_datetime\<close>, a reader of timestamps in the layout the API sends; null is
  NaT. (pandas reads further layouts, and numbers as offsets from the epoch; the runs
  below have none.)
\<close>

fun iso_cells :: "rat series \<Rightarrow> exn + datetime option list" where
  "iso_cells [] = Inr []"
| "iso_cells (c # cs) =
     (case iso_cells cs of
        Inl e \<Rightarrow> Inl e
      | Inr ts \<Rightarrow>
          (case c of
             CNull \<Rightarrow> Inr (None # ts)
           | CStr s \<Rightarrow>
               (case strptime_fecha_hora s of
                  None \<Rightarrow> Inl ValueError
                | Some t \<Rightarrow> Inr (Some t # ts))
           | _ \<Rightarrow> Inl TypeError))"

definition lib_b64 :: "rat library" where
  "lib_b64 =
     \<lparr>fmul = (\<lambda>x y. b64_round (x * y)), of_lit = b64_round,
      float_of_int = (\<lambda>n. b64_round (of_int n)), to_datetime = iso_cells\<rparr>"

definition reloj :: datetime where
  "reloj = \<lparr>year = 2025, month = 3, day = 15, hour = 10, minute = 30, second = 0\<rparr>"

definition respuesta_400 :: "rat response" where
  "respuesta_400 = \<lparr>status_code = 400, body_text = ''Bad Request'', payload = None\<rparr>"

definition env_400 :: "rat env" where
  "env_400 =
     \<lparr>now = reloj, requests_get = (\<lambda>_. Response respuesta_400),
      removable = (\<lambda>_. True), write_outcome = (\<lambda>_. Completes),
      print_raises = (\<lambda>_. None), flush_ok = True\<rparr>"





definition mundo_vacio :: "rat world" where
  "mundo_vacio = \<lparr>files = (\<lambda>_. None), console = []\<rparr>"

text \<open>
  An answer with two hourly records, the keys in an order that is not the order of the
  output, integer and float columns, and a null among the temperatures.
\<close>

definition hourly_ejemplo :: "(string \<times> rat cell list) list" where
  "hourly_ejemplo =
     [(''weathercode'', [CInt 3, CInt 61]),
      (''wind_speed_10m'', [CFloat 10, CFloat (5 / 2)]),
      (''time'', [CStr ''2024-01-01T00:00'', CStr ''2024-01-01T01:00'']),
      (''temperature_2m'', [CFloat (25 / 2), CNull]),
      (''wind_gusts_10m'', [CFloat 20, CFloat 5]),
      (''relative_humidity_2m'', [CInt 85, CInt 90]),
      (''dewpoint_2m'', [CFloat (39 / 4), CFloat (19 / 2)]),
      (''pressure_msl'', [CFloat (4053 / 4), CFloat 1013]),
      (''wind_direction_10m'', [CInt 270, CInt 180]),
      (''precipitation'', [CFloat 0, CFloat (1 / 2)])]"

definition respuesta_ok :: "rat response" where
  "respuesta_ok =
     \<lparr>status_code = 200, body_text = ''...'', payload = Some (Hourly hourly_ejemplo)\<rparr>"

definition env_ok :: "rat env" where
  "env_ok =
     \<lparr>now = reloj, requests_get = (\<lambda>_. Response respuesta_ok),
      removable = (\<lambda>_. True), write_outcome = (\<lambda>_. Completes),
      print_raises = (\<lambda>_. None), flush_ok = True\<rparr>"

text \<open>The file that the run writes for this answer.\<close>

definition archivo_ejemplo :: "rat csv" where
  "archivo_ejemplo =
     \<lparr>header = columnas_finales,
      rows =
        [[CStr ''2024-01-01T00:00'', CFloat (25 / 2), CInt 85, CFloat (39 / 4),
          CFloat (4053 / 4), CFloat 0, CFloat 36, CFloat 72, CInt 270, CInt 3],
         [CStr ''2024-01-01T01:00'', CNull, CInt 90, CFloat (19 / 2),
          CFloat 1013, CFloat (1 / 2), CFloat 9, CFloat 18, CInt 180, CInt 61]]\<rparr>"




text \<open>
  The same answer, with a weather code beyond 53 bits in the first record and a null
  in the second.
\<close>

definition hourly_codigo_grande :: "(string \<times> rat cell list) list" where
  "hourly_codigo_grande =
     (''weathercode'', [CInt 9007199254740993, CNull]) # tl hourly_ejemplo"

definition respuesta_codigo_grande :: "rat response" where
  "respuesta_codigo_grande =
     \<lparr>status_code = 200, body_text = ''...'', payload = Some (Hourly hourly_codigo_grande)\<rparr>"

definition env_codigo_grande :: "rat env" where
  "env_codigo_grande = env_ok\<lparr>requests_get := (\<lambda>_. Response respuesta_codigo_grande)\<rparr>"

text \<open>The same answer, with a null for the time of the second record.\<close>

definition hourly_hora_nula :: "(string \<times> rat cell list) list" where
  "hourly_hora_nula = hourly_ejemplo[2 := (''time'', [CStr ''2024-01-01T00:00'', CNull])]"

definition respuesta_hora_nula :: "rat response" where
  "respuesta_hora_nula =
     \<lparr>status_code = 200, body_text = ''...'', payload = Some (Hourly hourly_hora_nula)\<rparr>"

definition env_hora_nula :: "rat env" where
  "env_hora_nula = env_ok\<lparr>requests_get := (\<lambda>_. Response respuesta_hora_nula)\<rparr>"

text \<open>An answer whose ten arrays are empty.\<close>

definition hourly_sin_filas :: "(string \<times> rat cell list) list" where
  "hourly_sin_filas = map (\<lambda>k. (k, [])) (''time'' # variables_horarias)"

definition respuesta_sin_filas :: "rat response" where
  "respuesta_sin_filas =
     \<lparr>status_code = 200, body_text = ''...'', payload = Some (Hourly hourly_sin_filas)\<rparr>"

definition env_sin_filas :: "rat env" where
  "env_sin_filas = env_ok\<lparr>requests_get := (\<lambda>_. Response respuesta_sin_filas)\<rparr>"

section \<open>Properties\<close>

subsection \<open>Effects of the function and of the run\<close>

lemma print_ok: "printable ev m \<Longrightarrow> print ev m w = Inr (logged m w)"
  by (simp add: print_def printable_def)

lemma files_logged: "files (logged m w) = files w"
  by (simp add: logged_def)

lemma console_logged: "console (logged m w) = console w @ [m]"
  by (simp add: logged_def)













subsection \<open>Dates\<close>

lemma zpad2: "zpad 2 n = [digit (n div 10 mod 10), digit (n mod 10)]"
proof -
  have "zpad (Suc (Suc 0)) n = [digit (n div 10 mod 10), digit (n mod 10)]"
    by (simp del: One_nat_def)
  moreover have "(2::nat) = Suc (Suc 0)" by simp
  ultimately show ?thesis by (simp only:)
qed

lemma zpad4: "zpad 4 n = [digit (n div 10 div 10 div 10 mod 10), digit (n div 10 div 10 mod 10), digit (n div 10 mod 10), digit (n mod 10)]"
proof -
  have "zpad (Suc (Suc (Suc (Suc 0)))) n = [digit (n div 10 div 10 div 10 mod 10), digit (n div 10 div 10 mod 10), digit (n div 10 mod 10), digit (n mod 10)]"
    by (simp del: One_nat_def)
  moreover have "(4::nat) = Suc (Suc (Suc (Suc 0)))" by simp
  ultimately show ?thesis by (simp only:)
qed

lemma strftime_Ymd: "strftime ''%Y-%m-%d'' d = zpad 4 (year d) @ ''-'' @ zpad 2 (month d) @ ''-'' @ zpad 2 (day d)"
  by (simp add: directive_def)

lemma strftime_YmdTHM: "strftime ''%Y-%m-%dT%H:%M'' d =
   zpad 4 (year d) @ ''-'' @ zpad 2 (month d) @ ''-'' @ zpad 2 (day d) @ ''T'' @ zpad 2 (hour d) @ '':'' @ zpad 2 (minute d)"
  by (simp add: directive_def)

text \<open>
  Claim C2. The end date of the request is the day before the day of the clock. The
  script formats the day of the clock itself: at 2025-03-15 10:30 it asks for data up
  to 2025-03-15, where the claim has 2025-03-14.
\<close>

theorem end_date_is_today:
  "FECHA_FIN env_400 = ''2025-03-15'' \<and> spec_FECHA_FIN env_400 = ''2025-03-14''"
  by (simp add: FECHA_FIN_def spec_FECHA_FIN_def env_400_def reloj_def spec_yesterday_def
      directive_def zpad2 zpad4 digit_def)

subsection \<open>Tables with distinct labels\<close>

lemma filter_label_distinct:
  "distinct (map fst df) \<Longrightarrow> (k, s) \<in> set df \<Longrightarrow> filter (\<lambda>c. fst c = k) df = [(k, s)]"
proof (induction df)
  case Nil
  then show ?case by simp
next
  case (Cons c df)
  show ?case
  proof (cases "c = (k, s)")
    case True
    with Cons.prems have "\<forall>c' \<in> set df. fst c' \<noteq> k"
      by (auto simp: image_iff)
    then have "filter (\<lambda>c. fst c = k) df = []"
      by (simp add: filter_empty_conv)
    with True show ?thesis by simp
  next
    case False
    with Cons.prems have in_df: "(k, s) \<in> set df" and "fst c \<noteq> k"
      by (auto simp: image_iff)
    with Cons show ?thesis by simp
  qed
qed

lemma getitem_member: "getitem df k = Inr s \<Longrightarrow> (k, s) \<in> set df"
proof -
  assume a: "getitem df k = Inr s"
  then obtain c where c: "filter (\<lambda>c. fst c = k) df = [c]" and s: "snd c = s"
    by (auto simp: getitem_def split: list.splits)
  have "c \<in> set (filter (\<lambda>c. fst c = k) df)"
    using c by simp
  then have "c \<in> set df" and "fst c = k"
    by auto
  with s show ?thesis
    by (cases c) auto
qed

lemma getitem_distinct:
  "distinct (map fst df) \<Longrightarrow> (k, s) \<in> set df \<Longrightarrow> getitem df k = Inr s"
  by (simp add: getitem_def filter_label_distinct)

lemma series_mul_Inr: "series_mul lib s k = Inr s' \<Longrightarrow> s' = map (cell_mul lib k) s"
  by (auto simp: series_mul_def split: if_splits)

lemma labels_replace_column [simp]: "map fst (replace_column k s df) = map fst df"
  by (induction df) (auto simp: replace_column_def)

lemma set_replace_column:
  "(k', s') \<in> set (replace_column k s df) \<longleftrightarrow>
     (k' = k \<and> s' = s \<and> k \<in> fst ` set df) \<or> (k' \<noteq> k \<and> (k', s') \<in> set df)"
  by (induction df) (auto simp: replace_column_def)

lemma setitem_present:
  "setitem df k s = Inr df' \<Longrightarrow> k \<in> fst ` set df \<Longrightarrow>
     df' = replace_column k s df \<and> length s = len df"
  by (auto simp: setitem_def replace_column_def split: if_splits)

lemma labels_rename: "map fst (rename df t) = map (rename_label t) (map fst df)"
  by (simp add: rename_def comp_def)

lemma set_rename:
  "(k', s) \<in> set (rename df t) \<longleftrightarrow> (\<exists>k. (k, s) \<in> set df \<and> k' = rename_label t k)"
  by (force simp: rename_def)

lemma map_of_value_inj:
  "distinct (map snd t) \<Longrightarrow> map_of t k = Some d \<Longrightarrow> map_of t k' = Some d \<Longrightarrow> k = k'"
proof (induction t)
  case Nil
  then show ?case by simp
next
  case (Cons p t)
  obtain a b where p: "p = (a, b)" by (cases p)
  have notin: "\<And>x. map_of t x \<noteq> Some b"
  proof
    fix x assume "map_of t x = Some b"
    then have "(x, b) \<in> set t" by (rule map_of_SomeD)
    then have "b \<in> snd ` set t" by force
    with Cons.prems(1) p show False by simp
  qed
  show ?case
  proof (cases "d = b")
    case True
    with Cons.prems p notin show ?thesis
      by (auto split: if_splits)
  next
    case False
    with Cons.prems p have "map_of t k = Some d" "map_of t k' = Some d" "distinct (map snd t)"
      by (auto split: if_splits)
    with Cons.IH show ?thesis by simp
  qed
qed

lemma rename_label_cases:
  "(map_of t k = None \<and> rename_label t k = k) \<or>
   (\<exists>d. map_of t k = Some d \<and> rename_label t k = d \<and> d \<in> snd ` set t)"
proof (cases "map_of t k")
  case None
  then show ?thesis by (simp add: rename_label_def)
next
  case (Some d)
  then have "(k, d) \<in> set t" by (rule map_of_SomeD)
  then have "d \<in> snd ` set t" by force
  with Some show ?thesis by (simp add: rename_label_def)
qed

lemma rename_label_inj_on:
  assumes "distinct (map snd t)" and "set ks \<inter> snd ` set t = {}"
  shows "inj_on (rename_label t) (set ks)"
proof (rule inj_onI)
  fix k k'
  assume k: "k \<in> set ks" and k': "k' \<in> set ks" and eq: "rename_label t k = rename_label t k'"
  have out: "\<And>x. x \<in> set ks \<Longrightarrow> x \<notin> snd ` set t"
    using assms(2) by auto
  have img: "\<And>x d. map_of t x = Some d \<Longrightarrow> d \<in> snd ` set t"
  proof -
    fix x d assume "map_of t x = Some d"
    then have "(x, d) \<in> set t" by (rule map_of_SomeD)
    then show "d \<in> snd ` set t" by force
  qed
  show "k = k'"
  proof (cases "map_of t k")
    case None
    note nk = this
    show ?thesis
    proof (cases "map_of t k'")
      case None
      with nk eq show ?thesis by (simp add: rename_label_def)
    next
      case (Some d)
      with nk eq have "k = d" by (simp add: rename_label_def)
      with img [OF Some] out [OF k] show ?thesis by simp
    qed
  next
    case (Some d)
    note sk = this
    show ?thesis
    proof (cases "map_of t k'")
      case None
      with sk eq have "k' = d" by (simp add: rename_label_def)
      with img [OF sk] out [OF k'] show ?thesis by simp
    next
      case (Some d')
      with sk eq have "d = d'" by (simp add: rename_label_def)
      with sk Some show ?thesis
        using map_of_value_inj [OF assms(1)] by blast
    qed
  qed
qed

lemma rename_label_target:
  assumes "distinct (map snd t)" and "k \<notin> snd ` set t" and "map_of t src = Some dst"
  shows "rename_label t k = dst \<longleftrightarrow> k = src"
proof
  assume e: "rename_label t k = dst"
  have "(src, dst) \<in> set t"
    using assms(3) by (rule map_of_SomeD)
  then have "dst \<in> snd ` set t"
    by force
  have "map_of t k \<noteq> None"
  proof
    assume "map_of t k = None"
    then have "rename_label t k = k" by (simp add: rename_label_def)
    with e \<open>dst \<in> snd ` set t\<close> assms(2) show False by simp
  qed
  then obtain d where d: "map_of t k = Some d" by auto
  then have "rename_label t k = d" by (simp add: rename_label_def)
  with e d have "map_of t k = Some dst" by simp
  with assms show "k = src"
    by (auto dest: map_of_value_inj)
next
  assume "k = src"
  with assms(3) show "rename_label t k = dst"
    by (simp add: rename_label_def)
qed

lemma select_distinct:
  assumes d: "distinct (map fst df)" and s: "select df names = Inr df'"
  shows "map fst df' = names" and "set df' = {c \<in> set df. fst c \<in> set names}"
proof -
  have names: "\<forall>n \<in> set names. n \<in> fst ` set df"
    and df': "df' = concat (map (\<lambda>n. filter (\<lambda>c. fst c = n) df) names)"
    using s by (auto simp: select_def list_all_iff split: if_splits)
  have one: "\<And>n. n \<in> set names \<Longrightarrow> map fst (filter (\<lambda>c. fst c = n) df) = [n]"
  proof -
    fix n assume "n \<in> set names"
    with names obtain x where "(n, x) \<in> set df"
      by force
    with d show "map fst (filter (\<lambda>c. fst c = n) df) = [n]"
      by (simp add: filter_label_distinct)
  qed
  have "\<And>ns. set ns \<subseteq> set names \<Longrightarrow>
          map fst (concat (map (\<lambda>n. filter (\<lambda>c. fst c = n) df) ns)) = ns"
  proof -
    fix ns show "set ns \<subseteq> set names \<Longrightarrow>
          map fst (concat (map (\<lambda>n. filter (\<lambda>c. fst c = n) df) ns)) = ns"
      by (induction ns) (auto simp: one)
  qed
  then show "map fst df' = names"
    using df' by simp
  show "set df' = {c \<in> set df. fst c \<in> set names}"
    using df' by auto
qed

subsection \<open>Columns of the written table\<close>

lemma position_Some:
  "position x xs = Some i \<Longrightarrow> i < length xs \<and> xs ! i = x"
  by (induction xs arbitrary: i) (auto split: if_splits)

lemma position_member:
  "x \<in> set xs \<Longrightarrow> \<exists>i. position x xs = Some i"
  by (induction xs) auto

lemma nth_label_distinct:
  assumes "distinct (map fst df)" and "i < length df" and "fst (df ! i) = k" and "(k, s) \<in> set df"
  shows "df ! i = (k, s)"
proof -
  from assms(4) obtain j where j: "j < length df" "df ! j = (k, s)"
    by (auto simp: in_set_conv_nth)
  then have "map fst df ! j = map fst df ! i"
    using assms by simp
  moreover have "i < length (map fst df)" "j < length (map fst df)"
    using assms(2) j(1) by simp_all
  ultimately have "i = j"
    using assms(1) nth_eq_iff_index_eq [of "map fst df" i j] by simp
  with j show ?thesis by simp
qed

lemma csv_column_table:
  assumes d: "distinct (map fst df)" and u: "\<forall>c \<in> set df. length (snd c) = len df"
    and m: "(k, s) \<in> set df"
  shows "csv_column \<lparr>header = map fst df, rows = table_rows df\<rparr> k = Some s"
proof -
  have "k \<in> set (map fst df)"
    using m by force
  then obtain i where i: "position k (map fst df) = Some i"
    using position_member [of k "map fst df"] by blast
  have il: "i < length df"
    using position_Some [OF i] by simp
  have fi: "fst (df ! i) = k"
    using position_Some [OF i] il by simp
  have dfi: "df ! i = (k, s)"
    using d il fi m by (rule nth_label_distinct)
  have ls: "length s = len df"
    using u m by force
  have "\<And>j. map (\<lambda>c. snd c ! j) df ! i = s ! j"
    using il dfi by simp
  then have "map (\<lambda>r. r ! i) (table_rows df) = map (\<lambda>j. s ! j) [0..<length s]"
    by (simp add: table_rows_def ls)
  also have "\<dots> = s"
    by (rule map_nth)
  finally have "map (\<lambda>r. r ! i) (table_rows df) = s" .
  then show ?thesis
    using i by (simp add: csv_column_def)
qed

subsection \<open>The transformation\<close>

lemma andThen_Inr: "andThen m f = Inr y \<longleftrightarrow> (\<exists>x. m = Inr x \<and> f x = Inr y)"
  by (cases m) (simp_all add: andThen_def)

lemma length_infer_column: "length (infer_column lib s) = length s"
  by (simp add: infer_column_def)

lemma DataFrame_Inr:
  "DataFrame lib h = Inr df \<longleftrightarrow>
     df = map (\<lambda>c. (fst c, infer_column lib (snd c))) h \<and>
     (\<forall>c \<in> set h. length (snd c) = len h)"
  by (auto simp: DataFrame_def list_all_iff)

lemma len_inferred: "len (map (\<lambda>c. (fst c, infer_column lib (snd c))) h) = len h"
  by (cases h) (simp_all add: len_def length_infer_column)

lemma transformar_Inr:
  assumes "transformar lib h = Inr df"
  shows "\<exists>df0 speed df1 gusts df2 df3 fechas ts.
     DataFrame lib h = Inr df0 \<and>
     getitem df0 ''wind_speed_10m'' = Inr speed \<and>
     setitem df0 ''wind_speed_10m'' (map (cell_mul lib (of_lit lib (36 / 10))) speed) = Inr df1 \<and>
     getitem df1 ''wind_gusts_10m'' = Inr gusts \<and>
     setitem df1 ''wind_gusts_10m'' (map (cell_mul lib (of_lit lib (36 / 10))) gusts) = Inr df2 \<and>
     select (rename df2 renombrar) columnas_finales = Inr df3 \<and>
     getitem df3 ''fecha_hora'' = Inr fechas \<and>
     to_datetime lib fechas = Inr ts \<and>
     setitem df3 ''fecha_hora'' (dt_strftime ts ''%Y-%m-%dT%H:%M'') = Inr df"
  using assms
  unfolding transformar_def andThen_Inr
  by (auto dest!: series_mul_Inr)

lemma targets: "map snd renombrar = columnas_finales"
  by (simp add: renombrar_def columnas_finales_def)

lemma sources: "map fst renombrar = ''time'' # variables_horarias"
  by (simp add: renombrar_def variables_horarias_def)

lemma distinct_columnas_finales: "distinct columnas_finales"
  by (simp add: columnas_finales_def viento_direccion_def)

lemma len_uniform:
  "df \<noteq> [] \<Longrightarrow> \<forall>c \<in> set df. length (snd c) = n \<Longrightarrow> len df = n"
  by (cases df) (simp_all add: len_def)


lemma renamed_member:
  assumes "(src, s) \<in> set df" and "map_of renombrar src = Some dst"
  shows "(dst, s) \<in> set (rename df renombrar)" and "dst \<in> set columnas_finales"
proof -
  have "rename_label renombrar src = dst"
    using assms(2) by (simp add: rename_label_def)
  with assms(1) show "(dst, s) \<in> set (rename df renombrar)"
    unfolding set_rename by blast
  have "(src, dst) \<in> set renombrar"
    using assms(2) by (rule map_of_SomeD)
  then have "dst \<in> set (map snd renombrar)"
    by force
  then show "dst \<in> set columnas_finales"
    by (simp only: targets)
qed

lemma pasos_columns:
  fixes lib :: "'f library" and df :: "'f dataframe"
  assumes u: "\<forall>c \<in> set h. length (snd c) = len h"
    and g1: "getitem h ''wind_speed_10m'' = Inr speed0"
    and s1: "setitem h ''wind_speed_10m'' (map (cell_mul lib (of_lit lib (36 / 10))) speed0)
               = Inr df1"
    and g2: "getitem df1 ''wind_gusts_10m'' = Inr gusts0"
    and s2: "setitem df1 ''wind_gusts_10m'' (map (cell_mul lib (of_lit lib (36 / 10))) gusts0)
               = Inr df2"
    and sel: "select (rename df2 renombrar) columnas_finales = Inr df3"
    and g3: "getitem df3 ''fecha_hora'' = Inr fechas"
    and td: "to_datetime lib fechas = Inr ts"
    and s3: "setitem df3 ''fecha_hora'' (dt_strftime ts ''%Y-%m-%dT%H:%M'') = Inr df"
    and d: "distinct (map fst h)"
    and x: "set (map fst h) \<inter> set columnas_finales = {}"
  shows "map fst df = columnas_finales"
    and "\<forall>c \<in> set df. length (snd c) = len df"
    and "len df = len h"
    and "\<And>speed. (''wind_speed_10m'', speed) \<in> set h \<Longrightarrow>
           (''viento_velocidad_kmh'', map (cell_mul lib (of_lit lib (36 / 10))) speed) \<in> set df"
    and "\<And>gusts. (''wind_gusts_10m'', gusts) \<in> set h \<Longrightarrow>
           (''viento_rafaga_kmh'', map (cell_mul lib (of_lit lib (36 / 10))) gusts) \<in> set df"
    and "\<And>src dst s. map_of renombrar src = Some dst \<Longrightarrow>
           src \<noteq> ''time'' \<Longrightarrow> src \<noteq> ''wind_speed_10m'' \<Longrightarrow> src \<noteq> ''wind_gusts_10m'' \<Longrightarrow>
           (src, s) \<in> set h \<Longrightarrow> (dst, s) \<in> set df"
    and "\<exists>fechas ts. (''time'', fechas) \<in> set h \<and> to_datetime lib fechas = Inr ts \<and>
           (''fecha_hora'', dt_strftime ts ''%Y-%m-%dT%H:%M'') \<in> set df"
proof -
  let ?k = "of_lit lib (36 / 10)"
  let ?ws = "''wind_speed_10m''" and ?wg = "''wind_gusts_10m''"
  let ?fh = "''fecha_hora''"
  let ?fs = "dt_strftime ts ''%Y-%m-%dT%H:%M''"
  have ws_h: "(?ws, speed0) \<in> set h"
    using g1 by (rule getitem_member)
  then have ws_in: "?ws \<in> fst ` set h"
    by force
  have df1: "df1 = replace_column ?ws (map (cell_mul lib ?k) speed0) h"
    using setitem_present [OF s1 ws_in] by simp
  have wg_1: "(?wg, gusts0) \<in> set df1"
    using g2 by (rule getitem_member)
  then have wg_h: "(?wg, gusts0) \<in> set h"
    by (simp add: df1 set_replace_column)
  have wg_in: "?wg \<in> fst ` set df1"
    using wg_1 by force
  have df2: "df2 = replace_column ?wg (map (cell_mul lib ?k) gusts0) df1"
    using setitem_present [OF s2 wg_in] by simp
  have lab2: "map fst df2 = map fst h"
    by (simp add: df1 df2)
  have speed2: "(?ws, map (cell_mul lib ?k) speed0) \<in> set df2"
    using ws_in by (simp add: df1 df2 set_replace_column)
  have gusts2: "(?wg, map (cell_mul lib ?k) gusts0) \<in> set df2"
    using wg_in by (simp add: df2 set_replace_column)
  have other2: "\<And>k s. k \<noteq> ?ws \<Longrightarrow> k \<noteq> ?wg \<Longrightarrow> (k, s) \<in> set df2 \<longleftrightarrow> (k, s) \<in> set h"
    by (simp add: df1 df2 set_replace_column)
  have n2: "\<forall>c \<in> set df2. length (snd c) = len h"
  proof
    fix c assume c: "c \<in> set df2"
    obtain k s where ks: "c = (k, s)" by (cases c)
    with c have "(k, s) \<in> set df2" by simp
    then have "s = map (cell_mul lib ?k) gusts0 \<or> s = map (cell_mul lib ?k) speed0 \<or> (k, s) \<in> set h"
      by (auto simp: df1 df2 set_replace_column)
    with u ws_h wg_h ks show "length (snd c) = len h"
      by force
  qed
  have "set (map fst h) \<inter> snd ` set renombrar = {}"
    using x targets by (metis set_map)
  moreover have "distinct (map snd renombrar)"
    using distinct_columnas_finales by (simp only: targets)
  ultimately have inj: "inj_on (rename_label renombrar) (set (map fst h))"
    by (rule rename_label_inj_on [rotated])
  have "distinct (map (rename_label renombrar) (map fst h))"
    using d inj by (rule distinct_map [THEN iffD2, OF conjI])
  then have dr: "distinct (map fst (rename df2 renombrar))"
    by (simp only: labels_rename lab2)
  have lab3: "map fst df3 = columnas_finales"
    and set3: "set df3 = {c \<in> set (rename df2 renombrar). fst c \<in> set columnas_finales}"
    using select_distinct [OF dr sel] by simp_all
  have n3: "\<forall>c \<in> set df3. length (snd c) = len h"
  proof
    fix c assume "c \<in> set df3"
    then have "c \<in> set (rename df2 renombrar)"
      using set3 by simp
    then obtain c' where "c' \<in> set df2" and "snd c = snd c'"
      by (auto simp: rename_def)
    with n2 show "length (snd c) = len h" by simp
  qed
  have ne3: "df3 \<noteq> []"
    using lab3 by (auto simp: columnas_finales_def)
  have l3: "len df3 = len h"
    using ne3 n3 by (rule len_uniform)
  have fh3: "(?fh, fechas) \<in> set df3"
    using g3 by (rule getitem_member)
  then have fh_in: "?fh \<in> fst ` set df3"
    by force
  have df: "df = replace_column ?fh ?fs df3"
    using setitem_present [OF s3 fh_in] by (rule conjunct1)
  have lfs: "length (?fs :: 'f series) = len df3"
    using setitem_present [OF s3 fh_in] by (rule conjunct2)
  show labels: "map fst df = columnas_finales"
    by (simp add: df lab3)
  have nf: "\<forall>c \<in> set df. length (snd c) = len h"
  proof
    fix c assume c: "c \<in> set df"
    obtain k s where ks: "c = (k, s)" by (cases c)
    with c have "s = ?fs \<or> (k, s) \<in> set df3"
      by (auto simp: df set_replace_column)
    with n3 lfs l3 ks show "length (snd c) = len h"
      by force
  qed
  have "df \<noteq> []"
    using labels by (auto simp: columnas_finales_def)
  then have ldf: "len df = len h"
    using nf by (rule len_uniform)
  with nf show "\<forall>c \<in> set df. length (snd c) = len df"
    by simp
  show "len df = len h"
    by (rule ldf)
  have forward: "\<And>src dst s. (src, s) \<in> set df2 \<Longrightarrow> map_of renombrar src = Some dst \<Longrightarrow>
      dst \<noteq> ?fh \<Longrightarrow> (dst, s) \<in> set df"
  proof -
    fix src dst s
    assume m: "(src, s) \<in> set df2" and r: "map_of renombrar src = Some dst" and n: "dst \<noteq> ?fh"
    have "(dst, s) \<in> set df3"
      using renamed_member [OF m r] set3 by simp
    with n show "(dst, s) \<in> set df"
      by (simp add: df set_replace_column)
  qed
  show "\<And>speed. (?ws, speed) \<in> set h \<Longrightarrow>
           (''viento_velocidad_kmh'', map (cell_mul lib ?k) speed) \<in> set df"
  proof -
    fix speed assume "(?ws, speed) \<in> set h"
    with d have "getitem h ?ws = Inr speed" by (rule getitem_distinct)
    with g1 have "speed = speed0" by simp
    moreover have "map_of renombrar ?ws = Some ''viento_velocidad_kmh''"
      by (simp add: renombrar_def)
    ultimately show "(''viento_velocidad_kmh'', map (cell_mul lib ?k) speed) \<in> set df"
      using forward [OF speed2] by simp
  qed
  show "\<And>gusts. (?wg, gusts) \<in> set h \<Longrightarrow>
           (''viento_rafaga_kmh'', map (cell_mul lib ?k) gusts) \<in> set df"
  proof -
    fix gusts assume "(?wg, gusts) \<in> set h"
    with d have "getitem h ?wg = Inr gusts" by (rule getitem_distinct)
    moreover have "getitem h ?wg = Inr gusts0"
      using d wg_h by (rule getitem_distinct)
    ultimately have "gusts = gusts0" by simp
    moreover have "map_of renombrar ?wg = Some ''viento_rafaga_kmh''"
      by (simp add: renombrar_def)
    ultimately show "(''viento_rafaga_kmh'', map (cell_mul lib ?k) gusts) \<in> set df"
      using forward [OF gusts2] by simp
  qed
  show "\<And>src dst s. map_of renombrar src = Some dst \<Longrightarrow>
           src \<noteq> ''time'' \<Longrightarrow> src \<noteq> ?ws \<Longrightarrow> src \<noteq> ?wg \<Longrightarrow>
           (src, s) \<in> set h \<Longrightarrow> (dst, s) \<in> set df"
  proof -
    fix src dst s
    assume r: "map_of renombrar src = Some dst" and nt: "src \<noteq> ''time''"
      and "src \<noteq> ?ws" and "src \<noteq> ?wg" and m: "(src, s) \<in> set h"
    then have m2: "(src, s) \<in> set df2"
      using other2 by simp
    have "map_of renombrar ''time'' = Some ?fh"
      by (simp add: renombrar_def)
    with r nt have "dst \<noteq> ?fh"
      using map_of_value_inj [of renombrar src ?fh "''time''"] distinct_columnas_finales
      by (auto simp only: targets)
    with m2 r show "(dst, s) \<in> set df"
      by (rule forward)
  qed
  have "(?fh, fechas) \<in> set (rename df2 renombrar)"
    using fh3 set3 by simp
  then obtain k where k2: "(k, fechas) \<in> set df2" and kr: "rename_label renombrar k = ?fh"
    unfolding set_rename by auto
  have "k \<in> set (map fst h)"
    using k2 lab2 by (metis fst_conv image_eqI set_map)
  then have "k \<notin> snd ` set renombrar"
    using x targets by (metis disjoint_iff set_map)
  moreover have "distinct (map snd renombrar)"
    using distinct_columnas_finales by (simp only: targets)
  moreover have "map_of renombrar ''time'' = Some ?fh"
    by (simp add: renombrar_def)
  ultimately have "k = ''time''"
    using kr rename_label_target by blast
  with k2 have "(''time'', fechas) \<in> set h"
    using other2 by simp
  moreover have "(?fh, ?fs) \<in> set df"
    using fh_in by (simp add: df set_replace_column)
  ultimately show "\<exists>fechas ts. (''time'', fechas) \<in> set h \<and> to_datetime lib fechas = Inr ts \<and>
           (?fh, dt_strftime ts ''%Y-%m-%dT%H:%M'') \<in> set df"
    using td by blast
qed

lemma cell_mul_to_float64: "cell_mul lib k (to_float64 lib c) = cell_mul lib k c"
  by (cases c) (simp_all add: cell_mul_def to_float64_def)

lemma mul_infer_column:
  "map (cell_mul lib k) (infer_column lib s) = map (cell_mul lib k) s"
  by (simp add: infer_column_def cell_mul_to_float64)

lemma transformar_columns:
  fixes lib :: "'f library"
  assumes t: "transformar lib h = Inr df"
    and d: "distinct (map fst h)"
    and x: "set (map fst h) \<inter> set columnas_finales = {}"
  shows "map fst df = columnas_finales"
    and "\<forall>c \<in> set df. length (snd c) = len df"
    and "len df = len h"
    and "\<And>speed. (''wind_speed_10m'', speed) \<in> set h \<Longrightarrow>
           (''viento_velocidad_kmh'', map (cell_mul lib (of_lit lib (36 / 10))) speed) \<in> set df"
    and "\<And>gusts. (''wind_gusts_10m'', gusts) \<in> set h \<Longrightarrow>
           (''viento_rafaga_kmh'', map (cell_mul lib (of_lit lib (36 / 10))) gusts) \<in> set df"
    and "\<And>src dst s. map_of renombrar src = Some dst \<Longrightarrow>
           src \<noteq> ''time'' \<Longrightarrow> src \<noteq> ''wind_speed_10m'' \<Longrightarrow> src \<noteq> ''wind_gusts_10m'' \<Longrightarrow>
           (src, s) \<in> set h \<Longrightarrow> (dst, infer_column lib s) \<in> set df"
    and "\<exists>fechas ts. (''time'', fechas) \<in> set h \<and>
           to_datetime lib (infer_column lib fechas) = Inr ts \<and>
           (''fecha_hora'', dt_strftime ts ''%Y-%m-%dT%H:%M'') \<in> set df"
proof -
  let ?k = "of_lit lib (36 / 10)"
  let ?df0 = "map (\<lambda>c. (fst c, infer_column lib (snd c))) h"
  from transformar_Inr [OF t] obtain df0 speed0 df1 gusts0 df2 df3 fechas ts where
    c: "DataFrame lib h = Inr df0"
    and g1: "getitem df0 ''wind_speed_10m'' = Inr speed0"
    and s1: "setitem df0 ''wind_speed_10m'' (map (cell_mul lib ?k) speed0) = Inr df1"
    and g2: "getitem df1 ''wind_gusts_10m'' = Inr gusts0"
    and s2: "setitem df1 ''wind_gusts_10m'' (map (cell_mul lib ?k) gusts0) = Inr df2"
    and sel: "select (rename df2 renombrar) columnas_finales = Inr df3"
    and g3: "getitem df3 ''fecha_hora'' = Inr fechas"
    and td: "to_datetime lib fechas = Inr ts"
    and s3: "setitem df3 ''fecha_hora'' (dt_strftime ts ''%Y-%m-%dT%H:%M'') = Inr df"
    by blast
  have df0: "df0 = ?df0" and uh: "\<forall>c \<in> set h. length (snd c) = len h"
    using c by (simp_all add: DataFrame_Inr)
  have lab0: "map fst df0 = map fst h"
    by (simp add: df0 comp_def)
  have l0: "len df0 = len h"
    by (simp add: df0 len_inferred)
  have u0: "\<forall>c \<in> set df0. length (snd c) = len df0"
    using uh by (auto simp: df0 len_inferred length_infer_column)
  have d0: "distinct (map fst df0)"
    using d by (simp only: lab0)
  have x0: "set (map fst df0) \<inter> set columnas_finales = {}"
    using x by (simp only: lab0)
  have into: "\<And>k s. (k, s) \<in> set h \<Longrightarrow> (k, infer_column lib s) \<in> set df0"
    by (force simp: df0)
  have from0: "\<And>k s'. (k, s') \<in> set df0 \<Longrightarrow> \<exists>s. (k, s) \<in> set h \<and> s' = infer_column lib s"
    by (auto simp: df0)
  note p = pasos_columns [OF u0 g1 s1 g2 s2 sel g3 td s3 d0 x0]
  show "map fst df = columnas_finales"
    by (rule p(1))
  show "\<forall>c \<in> set df. length (snd c) = len df"
    by (rule p(2))
  show "len df = len h"
    using p(3) l0 by simp
  show "\<And>speed. (''wind_speed_10m'', speed) \<in> set h \<Longrightarrow>
           (''viento_velocidad_kmh'', map (cell_mul lib ?k) speed) \<in> set df"
  proof -
    fix speed assume "(''wind_speed_10m'', speed) \<in> set h"
    then have "(''wind_speed_10m'', infer_column lib speed) \<in> set df0"
      by (rule into)
    then have "(''viento_velocidad_kmh'', map (cell_mul lib ?k) (infer_column lib speed)) \<in> set df"
      by (rule p(4))
    then show "(''viento_velocidad_kmh'', map (cell_mul lib ?k) speed) \<in> set df"
      by (simp only: mul_infer_column)
  qed
  show "\<And>gusts. (''wind_gusts_10m'', gusts) \<in> set h \<Longrightarrow>
           (''viento_rafaga_kmh'', map (cell_mul lib ?k) gusts) \<in> set df"
  proof -
    fix gusts assume "(''wind_gusts_10m'', gusts) \<in> set h"
    then have "(''wind_gusts_10m'', infer_column lib gusts) \<in> set df0"
      by (rule into)
    then have "(''viento_rafaga_kmh'', map (cell_mul lib ?k) (infer_column lib gusts)) \<in> set df"
      by (rule p(5))
    then show "(''viento_rafaga_kmh'', map (cell_mul lib ?k) gusts) \<in> set df"
      by (simp only: mul_infer_column)
  qed
  show "\<And>src dst s. map_of renombrar src = Some dst \<Longrightarrow>
           src \<noteq> ''time'' \<Longrightarrow> src \<noteq> ''wind_speed_10m'' \<Longrightarrow> src \<noteq> ''wind_gusts_10m'' \<Longrightarrow>
           (src, s) \<in> set h \<Longrightarrow> (dst, infer_column lib s) \<in> set df"
  proof -
    fix src dst s
    assume r: "map_of renombrar src = Some dst" and n: "src \<noteq> ''time''"
      "src \<noteq> ''wind_speed_10m''" "src \<noteq> ''wind_gusts_10m''" and m: "(src, s) \<in> set h"
    from m have "(src, infer_column lib s) \<in> set df0"
      by (rule into)
    with r n show "(dst, infer_column lib s) \<in> set df"
      by (rule p(6))
  qed
  from p(7) obtain f0 ts0 where f: "(''time'', f0) \<in> set df0"
    and t0: "to_datetime lib f0 = Inr ts0"
    and w: "(''fecha_hora'', dt_strftime ts0 ''%Y-%m-%dT%H:%M'') \<in> set df"
    by blast
  from from0 [OF f] obtain s where "(''time'', s) \<in> set h" and "f0 = infer_column lib s"
    by blast
  with t0 w show "\<exists>fechas ts. (''time'', fechas) \<in> set h \<and>
           to_datetime lib (infer_column lib fechas) = Inr ts \<and>
           (''fecha_hora'', dt_strftime ts ''%Y-%m-%dT%H:%M'') \<in> set df"
    by blast
qed

subsection \<open>The example answer\<close>

lemma strptime_ejemplo_0: "strptime_fecha_hora ''2024-01-01T00:00'' = Some \<lparr>year = 2024, month = 1, day = 1, hour = 0, minute = 0, second = 0\<rparr>"
  by (simp add: strptime_fecha_hora_def is_digit_def digit_val_def valid_datetime_def days_in_month_def)

lemma strptime_ejemplo_1: "strptime_fecha_hora ''2024-01-01T01:00'' = Some \<lparr>year = 2024, month = 1, day = 1, hour = 1, minute = 0, second = 0\<rparr>"
  by (simp add: strptime_fecha_hora_def is_digit_def digit_val_def valid_datetime_def days_in_month_def)

lemma andThen_weak_cong: "m = m' \<Longrightarrow> andThen m f = andThen m' f"
  by simp

lemma andThen_Inr_simp: "andThen (Inr x) f = f x"
  by (simp add: andThen_def)

lemma andThen_Inl_simp: "andThen (Inl e) f = Inl e"
  by (simp add: andThen_def)

lemma to_datetime_b64: "to_datetime lib_b64 = iso_cells"
  by (simp add: lib_b64_def)

lemma velocidad_ejemplo:
  "series_mul lib_b64 [CFloat 10, CFloat (5 / 2)] (of_lit lib_b64 (18 / 5))
     = Inr [CFloat 36, CFloat 9]"
  by code_simp

lemma rafaga_ejemplo:
  "series_mul lib_b64 [CFloat 20, CFloat 5] (of_lit lib_b64 (18 / 5))
     = Inr [CFloat 72, CFloat 18]"
  by code_simp

lemma codigo_grande: "to_float64 lib_b64 (CInt 9007199254740993) = CFloat 9007199254740992"
  by code_simp

lemma to_float64_simps:
  "to_float64 lib CNull = CNull"
  "to_float64 lib (CFloat x) = CFloat x"
  "to_float64 lib (CStr s) = CStr s"
  "to_float64 lib (CBool b) = CBool b"
  by (simp_all add: to_float64_def)

lemma transformar_ejemplo:
  "transformar lib_b64 hourly_ejemplo
     = Inr (zip (header archivo_ejemplo)
         [[CStr ''2024-01-01T00:00'', CStr ''2024-01-01T01:00''],
          [CFloat (25 / 2), CNull], [CInt 85, CInt 90], [CFloat (39 / 4), CFloat (19 / 2)],
          [CFloat (4053 / 4), CFloat 1013], [CFloat 0, CFloat (1 / 2)],
          [CFloat 36, CFloat 9], [CFloat 72, CFloat 18], [CInt 270, CInt 180],
          [CInt 3, CInt 61]])"
  by (simp add: transformar_def andThen_Inr_simp andThen_Inl_simp DataFrame_def len_def
      infer_column_def is_str_def is_bool_def is_float_def is_null_def to_float64_simps
      getitem_def velocidad_ejemplo rafaga_ejemplo setitem_def rename_def rename_label_def
      renombrar_def select_def columnas_finales_def viento_direccion_def hourly_ejemplo_def
      archivo_ejemplo_def to_datetime_b64 dt_strftime_def strptime_ejemplo_0
      strptime_ejemplo_1 directive_def zpad2 zpad4 digit_def
      cong: andThen_weak_cong)

lemma csv_ejemplo:
  "transformar lib_b64 hourly_ejemplo = Inr df \<Longrightarrow> csv_of df = archivo_ejemplo"
  by (auto simp add: transformar_ejemplo csv_of_def table_rows_def len_def archivo_ejemplo_def
      columnas_finales_def upt_rec)

subsection \<open>What a call leaves on the disk\<close>

lemma try_body_files:
  assumes "try_body lib ev req a w = (ex, resp, w1)"
  shows "files w1 = files w \<or>
         (\<exists>r h df. requests_get ev req = Response r \<and> payload r = Some (Hourly h) \<and>
            transformar lib h = Inr df \<and>
            (write_outcome ev a = Completes \<and> files w1 = (files w)(a \<mapsto> csv_of df) \<or>
             (\<exists>n. write_outcome ev a = FailsAfter n \<and>
                  files w1 = (files w)(a \<mapsto> first_lines n (csv_of df)))))"
proof (cases "requests_get ev req")
  case NetworkFailure
  with assms show ?thesis
    by (simp add: try_body_def)
next
  case (Response r)
  show ?thesis
  proof (cases "\<exists>h df. payload r = Some (Hourly h) \<and> transformar lib h = Inr df \<and>
      raise_for_status r = Inr () \<and> printable ev DatosRecibidos")
    case False
    with assms Response show ?thesis
      by (auto simp: try_body_def print_def printable_def files_logged
          split: sum.splits option.splits json.splits)
  next
    case True
    then obtain h df where h: "payload r = Some (Hourly h)" and t: "transformar lib h = Inr df"
      and s: "raise_for_status r = Inr ()" and p: "printable ev DatosRecibidos"
      by blast
    show ?thesis
    proof (cases "write_outcome ev a")
      case CannotOpen
      with assms Response h t s p show ?thesis
        by (auto simp: try_body_def print_ok to_csv_def files_logged)
    next
      case (FailsAfter n)
      with assms Response h t s p show ?thesis
        by (auto simp: try_body_def print_ok to_csv_def files_logged)
    next
      case Completes
      with assms Response h t s p have "files w1 = (files w)(a \<mapsto> csv_of df)"
        by (auto simp: try_body_def printable_def print_def to_csv_def files_logged
            split: option.splits)
      with Response h t Completes show ?thesis
        by blast
    qed
  qed
qed

lemma descargar_files_try:
  assumes "try_body lib ev \<lparr>url = api_url, query = params lat lon sd ed\<rparr> a
             (logged (Solicitando sd ed) w) = (ex, resp, w1)"
    and "printable ev (Solicitando sd ed)"
  shows "files (snd (descargar_datos_historicos lib ev lat lon sd ed a w)) = files w1"
proof -
  have p: "print ev (Solicitando sd ed) w = Inr (logged (Solicitando sd ed) w)"
    using assms(2) by (rule print_ok)
  show ?thesis
    unfolding descargar_datos_historicos_def p
    by (cases ex)
      (auto simp: assms(1) print_def files_logged split: option.splits)
qed

lemma descargar_files:
  "files (snd (descargar_datos_historicos lib ev lat lon sd ed a w)) = files w \<or>
   (\<exists>r h df. requests_get ev \<lparr>url = api_url, query = params lat lon sd ed\<rparr> = Response r \<and>
      payload r = Some (Hourly h) \<and> transformar lib h = Inr df \<and>
      (write_outcome ev a = Completes \<and>
         files (snd (descargar_datos_historicos lib ev lat lon sd ed a w))
           = (files w)(a \<mapsto> csv_of df) \<or>
       (\<exists>n. write_outcome ev a = FailsAfter n \<and>
         files (snd (descargar_datos_historicos lib ev lat lon sd ed a w))
           = (files w)(a \<mapsto> first_lines n (csv_of df)))))"
proof (cases "printable ev (Solicitando sd ed)")
  case False
  then show ?thesis
    by (auto simp: descargar_datos_historicos_def print_def printable_def)
next
  case True
  obtain ex resp w1 where t: "try_body lib ev \<lparr>url = api_url, query = params lat lon sd ed\<rparr> a
      (logged (Solicitando sd ed) w) = (ex, resp, w1)"
    by (cases "try_body lib ev \<lparr>url = api_url, query = params lat lon sd ed\<rparr> a
      (logged (Solicitando sd ed) w)") auto
  have "files (snd (descargar_datos_historicos lib ev lat lon sd ed a w)) = files w1"
    using t True by (rule descargar_files_try)
  with try_body_files [OF t] show ?thesis
    by (simp add: files_logged)
qed

text \<open>The file that a call creates when its write completes is the transformed table.\<close>

lemma descargar_creates:
  assumes "requests_get ev \<lparr>url = api_url, query = params lat lon sd ed\<rparr> = Response r"
    and "payload r = Some (Hourly h)"
    and "write_outcome ev a = Completes"
    and "files w a = None"
    and "files (snd (descargar_datos_historicos lib ev lat lon sd ed a w)) a = Some f"
  shows "\<exists>df. transformar lib h = Inr df \<and> f = csv_of df"
  using descargar_files [of lib ev lat lon sd ed a w] assms
  by auto

subsection \<open>The body of the try statement when nothing fails\<close>

lemma try_body_transformed:
  assumes "requests_get ev req = Response r"
    and "raise_for_status r = Inr ()"
    and "payload r = Some (Hourly h)"
    and "transformar lib h = Inr df"
    and "printable ev DatosRecibidos"
  shows "try_body lib ev req a w =
     (case to_csv ev df a (logged DatosRecibidos w) of
        (Some e, w2) \<Rightarrow> (Some e, Some r, w2)
      | (None, w2) \<Rightarrow>
     (case print ev (RegistrosGuardados (len df) a) w2 of
        Inl e \<Rightarrow> (Some e, Some r, w2)
      | Inr w3 \<Rightarrow>
     (case print ev (Tail (map fst df) (tail 3 (table_rows df))) w3 of
        Inl e \<Rightarrow> (Some e, Some r, w3)
      | Inr w4 \<Rightarrow> (None, Some r, w4))))"
  using assms by (simp add: try_body_def print_ok)

lemma descargar_transformed:
  assumes "requests_get ev \<lparr>url = api_url, query = params lat lon sd ed\<rparr> = Response r"
    and "raise_for_status r = Inr ()"
    and "payload r = Some (Hourly h)"
    and "transformar lib h = Inr df"
    and "\<And>m. printable ev m"
  shows "descargar_datos_historicos lib ev lat lon sd ed a w =
     (None,
      case write_outcome ev a of
        CannotOpen \<Rightarrow>
          logged (ErrorInesperado OSError) (logged DatosRecibidos (logged (Solicitando sd ed) w))
      | FailsAfter n \<Rightarrow>
          logged (ErrorInesperado OSError)
            ((logged DatosRecibidos (logged (Solicitando sd ed) w))
               \<lparr>files := (files w)(a \<mapsto> first_lines n (csv_of df))\<rparr>)
      | Completes \<Rightarrow>
          logged (Tail (map fst df) (tail 3 (table_rows df)))
            (logged (RegistrosGuardados (len df) a)
              ((logged DatosRecibidos (logged (Solicitando sd ed) w))
                 \<lparr>files := (files w)(a \<mapsto> csv_of df)\<rparr>)))"
proof -
  have p: "\<And>m w. print ev m w = Inr (logged m w)"
    using assms(5) by (simp add: print_ok)
  show ?thesis
    by (cases "write_outcome ev a")
      (simp_all add: descargar_datos_historicos_def p
        try_body_transformed [OF assms(1,2,3,4) assms(5)] to_csv_def files_logged)
qed










subsection \<open>The columns of the file that a call creates\<close>

lemma created_file:
  fixes lib :: "'f library"
  assumes "requests_get ev \<lparr>url = api_url, query = params lat lon sd ed\<rparr> = Response r"
    and "payload r = Some (Hourly h)"
    and "distinct (map fst h)"
    and "set (map fst h) \<inter> set columnas_finales = {}"
    and "write_outcome ev a = Completes"
    and "files w a = None"
    and "files (snd (descargar_datos_historicos lib ev lat lon sd ed a w)) a = Some f"
  shows "\<exists>df. transformar lib h = Inr df \<and> f = csv_of df \<and>
           (\<forall>k s. (k, s) \<in> set df \<longrightarrow> csv_column f k = Some s)"
proof -
  from descargar_creates [OF assms(1,2,5,6,7)] obtain df
    where t: "transformar lib h = Inr df" and f: "f = csv_of df"
    by blast
  have l: "map fst df = columnas_finales"
    using t assms(3,4) by (rule transformar_columns(1))
  have u: "\<forall>c \<in> set df. length (snd c) = len df"
    using t assms(3,4) by (rule transformar_columns(2))
  have dd: "distinct (map fst df)"
    using distinct_columnas_finales by (simp only: l)
  have "\<And>k s. (k, s) \<in> set df \<Longrightarrow> csv_column f k = Some s"
    unfolding f csv_of_def using dd u by (rule csv_column_table)
  with t f show ?thesis
    by blast
qed

lemma hourly_ejemplo_keys:
  "distinct (map fst hourly_ejemplo)"
  "set (map fst hourly_ejemplo) \<inter> set columnas_finales = {}"
  by (simp_all add: hourly_ejemplo_def columnas_finales_def viento_direccion_def)

lemma descargar_ejemplo:
  "files (snd (descargar_datos_historicos lib_b64 env_ok (LATITUD lib_b64) (LONGITUD lib_b64)
      FECHA_INICIO (FECHA_FIN env_ok) ARCHIVO_SALIDA mundo_vacio)) ARCHIVO_SALIDA
     = Some archivo_ejemplo"
proof -
  have r: "requests_get env_ok \<lparr>url = api_url, query = params (LATITUD lib_b64)
      (LONGITUD lib_b64) FECHA_INICIO (FECHA_FIN env_ok)\<rparr> = Response respuesta_ok"
    by (simp add: env_ok_def)
  have s: "raise_for_status respuesta_ok = Inr ()"
    by (simp add: raise_for_status_def respuesta_ok_def)
  have h: "payload respuesta_ok = Some (Hourly hourly_ejemplo)"
    by (simp add: respuesta_ok_def)
  obtain df where t: "transformar lib_b64 hourly_ejemplo = Inr df"
    using transformar_ejemplo by blast
  have p: "\<And>m. printable env_ok m"
    by (simp add: printable_def env_ok_def)
  have c: "write_outcome env_ok ARCHIVO_SALIDA = Completes"
    by (simp add: env_ok_def)
  show ?thesis
    by (simp add: descargar_transformed [OF r s h t p] c files_logged csv_ejemplo [OF t])
qed

lemma entorno_ejemplo:
  "requests_get env_ok \<lparr>url = api_url, query = params (LATITUD lib_b64)
      (LONGITUD lib_b64) FECHA_INICIO (FECHA_FIN env_ok)\<rparr> = Response respuesta_ok"
  "payload respuesta_ok = Some (Hourly hourly_ejemplo)"
  "write_outcome env_ok ARCHIVO_SALIDA = Completes"
  "files mundo_vacio ARCHIVO_SALIDA = None"
  by (simp_all add: env_ok_def respuesta_ok_def mundo_vacio_def)

text \<open>
  C4. A file that a call creates, its write completed, has the ten names of
  \<^verbatim>\<open>columnas_finales\<close> as its header line, in that order, whatever the order of the keys
  of the \<^verbatim>\<open>hourly\<close> object (and whatever further keys it has), for an answer none of whose
  keys is already one of the ten output names.
\<close>

theorem header_is_columnas_finales:
  fixes lib :: "'f library"
  assumes "requests_get ev \<lparr>url = api_url, query = params lat lon sd ed\<rparr> = Response r"
    and "payload r = Some (Hourly h)"
    and "distinct (map fst h)"
    and "set (map fst h) \<inter> set columnas_finales = {}"
    and "write_outcome ev a = Completes"
    and "files w a = None"
    and "files (snd (descargar_datos_historicos lib ev lat lon sd ed a w)) a = Some f"
  shows "header f = columnas_finales"
proof -
  from created_file [OF assms] obtain df
    where t: "transformar lib h = Inr df" and f: "f = csv_of df"
    by blast
  have "map fst df = columnas_finales"
    using t assms(3,4) by (rule transformar_columns(1))
  then show ?thesis
    by (simp add: f csv_of_def)
qed

theorem header_is_columnas_finales_witness:
  "requests_get env_ok \<lparr>url = api_url, query = params (LATITUD lib_b64)
      (LONGITUD lib_b64) FECHA_INICIO (FECHA_FIN env_ok)\<rparr> = Response respuesta_ok \<and>
   payload respuesta_ok = Some (Hourly hourly_ejemplo) \<and>
   distinct (map fst hourly_ejemplo) \<and>
   set (map fst hourly_ejemplo) \<inter> set columnas_finales = {} \<and>
   write_outcome env_ok ARCHIVO_SALIDA = Completes \<and>
   files mundo_vacio ARCHIVO_SALIDA = None \<and>
   files (snd (descargar_datos_historicos lib_b64 env_ok (LATITUD lib_b64) (LONGITUD lib_b64)
      FECHA_INICIO (FECHA_FIN env_ok) ARCHIVO_SALIDA mundo_vacio)) ARCHIVO_SALIDA
     = Some archivo_ejemplo \<and>
   map fst hourly_ejemplo \<noteq> ''time'' # variables_horarias \<and>
   header archivo_ejemplo = columnas_finales"
  using header_is_columnas_finales [OF entorno_ejemplo(1,2) hourly_ejemplo_keys
      entorno_ejemplo(3,4) descargar_ejemplo]
    entorno_ejemplo hourly_ejemplo_keys descargar_ejemplo
  by (simp add: hourly_ejemplo_def)





lemma infer_column_no_int:
  "\<forall>c \<in> set s. \<forall>n. c \<noteq> CInt n \<Longrightarrow> infer_column lib s = s"
proof -
  assume a: "\<forall>c \<in> set s. \<forall>n. c \<noteq> CInt n"
  have "map (to_float64 lib) s = s"
  proof (rule map_idI)
    fix c assume "c \<in> set s"
    with a show "to_float64 lib c = c"
      by (cases c) (auto simp: to_float64_def)
  qed
  then show ?thesis
    by (simp add: infer_column_def)
qed

lemma infer_column_all_int:
  "\<forall>c \<in> set s. \<exists>n. c = CInt n \<Longrightarrow> infer_column lib s = s"
  by (auto simp: infer_column_def list_ex_iff is_float_def is_null_def)

text \<open>
  C9, as the code has it. In a file that a call creates, its write completed, each of
  the seven other fields (temperature, humidity, dew point, pressure, precipitation,
  wind direction, weather code) holds the column that pandas builds for the array of
  the answer. That column has the values of the array, with one exception: the
  integers of an array that also holds a null or a float, and no string or boolean,
  are converted to float64. An array without integers, and an array of integers only,
  are written as they are.
\<close>

theorem other_fields_as_pandas_holds_them:
  fixes lib :: "'f library"
  assumes "requests_get ev \<lparr>url = api_url, query = params lat lon sd ed\<rparr> = Response r"
    and "payload r = Some (Hourly h)"
    and "distinct (map fst h)"
    and "set (map fst h) \<inter> set columnas_finales = {}"
    and "write_outcome ev a = Completes"
    and "files w a = None"
    and "files (snd (descargar_datos_historicos lib ev lat lon sd ed a w)) a = Some f"
    and "map_of renombrar src = Some dst"
    and "src \<noteq> ''time''" and "src \<noteq> ''wind_speed_10m''" and "src \<noteq> ''wind_gusts_10m''"
    and "(src, s) \<in> set h"
  shows "csv_column f dst = Some (infer_column lib s) \<and>
         ((\<forall>c \<in> set s. \<forall>n. c \<noteq> CInt n) \<or> (\<forall>c \<in> set s. \<exists>n. c = CInt n)
            \<longrightarrow> csv_column f dst = Some s)"
proof -
  from created_file [OF assms(1-7)] obtain df
    where t: "transformar lib h = Inr df"
      and c: "\<And>k s. (k, s) \<in> set df \<Longrightarrow> csv_column f k = Some s"
    by blast
  have "(dst, infer_column lib s) \<in> set df"
    using t assms(3,4,8-12) by (rule transformar_columns(6))
  then have "csv_column f dst = Some (infer_column lib s)"
    by (rule c)
  then show ?thesis
    using infer_column_no_int [of s lib] infer_column_all_int [of s lib] by auto
qed

lemma humedad_ejemplo:
  "map_of renombrar ''relative_humidity_2m'' = Some ''humedad_%''"
  "''relative_humidity_2m'' \<noteq> ''time''"
  "''relative_humidity_2m'' \<noteq> ''wind_speed_10m''"
  "''relative_humidity_2m'' \<noteq> ''wind_gusts_10m''"
  "(''relative_humidity_2m'', [CInt 85, CInt 90]) \<in> set hourly_ejemplo"
  by (simp_all add: renombrar_def hourly_ejemplo_def)

theorem other_fields_as_pandas_holds_them_witness:
  "requests_get env_ok \<lparr>url = api_url, query = params (LATITUD lib_b64)
      (LONGITUD lib_b64) FECHA_INICIO (FECHA_FIN env_ok)\<rparr> = Response respuesta_ok \<and>
   payload respuesta_ok = Some (Hourly hourly_ejemplo) \<and>
   distinct (map fst hourly_ejemplo) \<and>
   set (map fst hourly_ejemplo) \<inter> set columnas_finales = {} \<and>
   write_outcome env_ok ARCHIVO_SALIDA = Completes \<and>
   files mundo_vacio ARCHIVO_SALIDA = None \<and>
   files (snd (descargar_datos_historicos lib_b64 env_ok (LATITUD lib_b64) (LONGITUD lib_b64)
      FECHA_INICIO (FECHA_FIN env_ok) ARCHIVO_SALIDA mundo_vacio)) ARCHIVO_SALIDA
     = Some archivo_ejemplo \<and>
   map_of renombrar ''relative_humidity_2m'' = Some ''humedad_%'' \<and>
   (''relative_humidity_2m'', [CInt 85, CInt 90]) \<in> set hourly_ejemplo \<and>
   csv_column archivo_ejemplo ''humedad_%'' = Some [CInt 85, CInt 90]"
  using other_fields_as_pandas_holds_them [OF entorno_ejemplo(1,2) hourly_ejemplo_keys
      entorno_ejemplo(3,4) descargar_ejemplo humedad_ejemplo]
    entorno_ejemplo hourly_ejemplo_keys descargar_ejemplo humedad_ejemplo
  by (simp add: infer_column_def is_str_def is_bool_def is_float_def is_null_def)

lemma transformar_codigo_grande:
  "transformar lib_b64 hourly_codigo_grande
     = Inr (zip columnas_finales
         [[CStr ''2024-01-01T00:00'', CStr ''2024-01-01T01:00''],
          [CFloat (25 / 2), CNull], [CInt 85, CInt 90], [CFloat (39 / 4), CFloat (19 / 2)],
          [CFloat (4053 / 4), CFloat 1013], [CFloat 0, CFloat (1 / 2)],
          [CFloat 36, CFloat 9], [CFloat 72, CFloat 18], [CInt 270, CInt 180],
          [CFloat 9007199254740992, CNull]])"
  by (simp add: transformar_def andThen_Inr_simp andThen_Inl_simp DataFrame_def len_def
      infer_column_def is_str_def is_bool_def is_float_def is_null_def to_float64_simps
      codigo_grande
      getitem_def velocidad_ejemplo rafaga_ejemplo setitem_def rename_def rename_label_def
      renombrar_def select_def columnas_finales_def viento_direccion_def hourly_ejemplo_def
      hourly_codigo_grande_def to_datetime_b64 dt_strftime_def strptime_ejemplo_0
      strptime_ejemplo_1 directive_def zpad2 zpad4 digit_def
      cong: andThen_weak_cong)

text \<open>
  C9 as stated does not hold: a field other than the two wind fields can be changed.
  The array of weather codes holds the integer \<open>2\<^sup>5\<^sup>3 + 1\<close> and a null; pandas turns it
  into a float64 column, and the file has \<open>2\<^sup>5\<^sup>3\<close> where the answer has \<open>2\<^sup>5\<^sup>3 + 1\<close>.
\<close>

theorem weather_code_is_changed:
  "(''weathercode'', [CInt 9007199254740993, CNull]) \<in> set hourly_codigo_grande \<and>
   payload respuesta_codigo_grande = Some (Hourly hourly_codigo_grande) \<and>
   (\<exists>f. files (snd (descargar_datos_historicos lib_b64 env_codigo_grande (LATITUD lib_b64)
            (LONGITUD lib_b64) FECHA_INICIO (FECHA_FIN env_codigo_grande) ARCHIVO_SALIDA
            mundo_vacio)) ARCHIVO_SALIDA = Some f \<and>
        csv_column f ''codigo_clima_wmo'' = Some [CFloat 9007199254740992, CNull])"
proof -
  have r: "requests_get env_codigo_grande \<lparr>url = api_url, query = params (LATITUD lib_b64)
      (LONGITUD lib_b64) FECHA_INICIO (FECHA_FIN env_codigo_grande)\<rparr>
      = Response respuesta_codigo_grande"
    by (simp add: env_codigo_grande_def)
  have s: "raise_for_status respuesta_codigo_grande = Inr ()"
    by (simp add: raise_for_status_def respuesta_codigo_grande_def)
  have h: "payload respuesta_codigo_grande = Some (Hourly hourly_codigo_grande)"
    by (simp add: respuesta_codigo_grande_def)
  obtain df where t: "transformar lib_b64 hourly_codigo_grande = Inr df"
    using transformar_codigo_grande by blast
  have p: "\<And>m. printable env_codigo_grande m"
    by (simp add: printable_def env_codigo_grande_def env_ok_def)
  have c: "write_outcome env_codigo_grande ARCHIVO_SALIDA = Completes"
    by (simp add: env_codigo_grande_def env_ok_def)
  have f: "files (snd (descargar_datos_historicos lib_b64 env_codigo_grande (LATITUD lib_b64)
            (LONGITUD lib_b64) FECHA_INICIO (FECHA_FIN env_codigo_grande) ARCHIVO_SALIDA
            mundo_vacio)) ARCHIVO_SALIDA = Some (csv_of df)"
    by (simp add: descargar_transformed [OF r s h t p] c files_logged)
  have "csv_column (csv_of df) ''codigo_clima_wmo'' = Some [CFloat 9007199254740992, CNull]"
    using t
    by (auto simp add: transformar_codigo_grande csv_of_def table_rows_def len_def
        csv_column_def columnas_finales_def viento_direccion_def upt_rec)
  with f h show ?thesis
    by (simp add: hourly_codigo_grande_def)
qed

subsection \<open>The timestamp layout\<close>

lemma digit_props:
  assumes "n < 10"
  shows "is_digit (digit n)" and "digit_val (digit n) = n"
proof -
  have "\<forall>k \<in> set [0..<10]. is_digit (digit k) \<and> digit_val (digit k) = k"
    by (simp add: upt_rec digit_def is_digit_def digit_val_def)
  with assms show "is_digit (digit n)" and "digit_val (digit n) = n"
    by simp_all
qed

lemma read_nat_snoc:
  "read_nat acc (cs @ [c]) =
     (case read_nat acc cs of
        None \<Rightarrow> None
      | Some v \<Rightarrow> if is_digit c then Some (10 * v + digit_val c) else None)"
  by (induction cs arbitrary: acc) simp_all

lemma read_nat_zpad:
  "n < 10 ^ w \<Longrightarrow> read_nat 0 (zpad w n) = Some n"
proof (induction w arbitrary: n)
  case 0
  then show ?case by simp
next
  case (Suc w)
  from Suc.prems have "n div 10 < 10 ^ w"
    by (simp add: less_mult_imp_div_less mult.commute)
  then have "read_nat 0 (zpad w (n div 10)) = Some (n div 10)"
    by (rule Suc.IH)
  moreover have "n mod 10 < 10"
    by simp
  ultimately show ?case
    by (simp add: read_nat_snoc digit_props)
qed

lemma digits_zpad: "list_all is_digit (zpad w n)"
  by (induction w arbitrary: n) (simp_all add: digit_props)

lemma length_zpad: "length (zpad w n) = w"
  by (induction w arbitrary: n) simp_all

lemma range_two: "(n::nat) < 60 \<Longrightarrow> n < 10 ^ 2" "(n::nat) < 24 \<Longrightarrow> n < 10 ^ 2"
  "(n::nat) \<le> 12 \<Longrightarrow> n < 10 ^ 2" "(n::nat) \<le> 31 \<Longrightarrow> n < 10 ^ 2"
  "(n::nat) \<le> 9999 \<Longrightarrow> n < 10 ^ 4"
  by simp_all

lemma days_in_month_le: "days_in_month y m \<le> 31"
  by (simp add: days_in_month_def)

lemma strftime_parts:
  fixes d :: datetime
  defines "s \<equiv> strftime ''%Y-%m-%dT%H:%M'' d"
  shows "length s = 16"
    and "take 4 s = zpad 4 (year d)" and "s ! 4 = CHR ''-''"
    and "take 2 (drop 5 s) = zpad 2 (month d)" and "s ! 7 = CHR ''-''"
    and "take 2 (drop 8 s) = zpad 2 (day d)" and "s ! 10 = CHR ''T''"
    and "take 2 (drop 11 s) = zpad 2 (hour d)" and "s ! 13 = CHR '':''"
    and "drop 14 s = zpad 2 (minute d)"
  unfolding s_def strftime_YmdTHM
  by (simp_all add: zpad2 zpad4)

lemma formato_strftime: "formato_fecha_hora (strftime ''%Y-%m-%dT%H:%M'' d)"
  unfolding formato_fecha_hora_def strftime_parts
  by (simp add: digits_zpad)

lemma strptime_strftime:
  assumes "valid_datetime d"
  shows "strptime_fecha_hora (strftime ''%Y-%m-%dT%H:%M'' d) = Some (d\<lparr>second := 0\<rparr>)"
proof -
  have y: "read_nat 0 (zpad 4 (year d)) = Some (year d)"
    using assms by (intro read_nat_zpad range_two) (simp add: valid_datetime_def)
  have m: "read_nat 0 (zpad 2 (month d)) = Some (month d)"
    using assms by (intro read_nat_zpad range_two(3)) (simp add: valid_datetime_def)
  have "day d \<le> 31"
    using assms days_in_month_le [of "year d" "month d"] by (simp add: valid_datetime_def)
  then have dd: "read_nat 0 (zpad 2 (day d)) = Some (day d)"
    by (intro read_nat_zpad range_two(4))
  have h: "read_nat 0 (zpad 2 (hour d)) = Some (hour d)"
    using assms by (intro read_nat_zpad range_two(2)) (simp add: valid_datetime_def)
  have mi: "read_nat 0 (zpad 2 (minute d)) = Some (minute d)"
    using assms by (intro read_nat_zpad range_two(1)) (simp add: valid_datetime_def)
  have v: "valid_datetime \<lparr>year = year d, month = month d, day = day d, hour = hour d,
      minute = minute d, second = 0\<rparr>"
    using assms by (simp add: valid_datetime_def)
  show ?thesis
    unfolding strptime_fecha_hora_def strftime_parts y m dd h mi
    using v by simp
qed

lemma strftime_seconds:
  "strftime ''%Y-%m-%dT%H:%M'' (d\<lparr>second := 0\<rparr>) = strftime ''%Y-%m-%dT%H:%M'' d"
  unfolding strftime_YmdTHM by simp

lemma iso_cells_valid:
  "iso_cells s = Inr ts \<Longrightarrow> Some d \<in> set ts \<Longrightarrow> valid_datetime d"
proof (induction s arbitrary: ts)
  case Nil
  then show ?case by simp
next
  case (Cons c cs)
  then show ?case
    by (auto simp: strptime_fecha_hora_def Let_def
        split: sum.splits cell.splits option.splits if_splits)
qed

text \<open>
  C5, as the code has it. In a file that a call creates, its write completed, the
  column \<^verbatim>\<open>fecha_hora\<close> holds, record by record, what \<^verbatim>\<open>pd.to_datetime\<close> made of the
  \<^verbatim>\<open>time\<close> array: an empty field where it gave NaT, and otherwise the timestamp in the
  layout \<^verbatim>\<open>YYYY-MM-DDTHH:MM\<close>. Such a string reads back as the timestamp it was made
  from, up to the seconds, which the layout drops, and formatting what was read gives
  the string again. (\<^verbatim>\<open>pd.to_datetime\<close> is taken to return timestamps that are calendar
  dates with a year of four digits.)
\<close>

theorem timestamps_are_formatted:
  fixes lib :: "'f library" and f :: "'f csv"
  assumes "requests_get ev \<lparr>url = api_url, query = params lat lon sd ed\<rparr> = Response r"
    and "payload r = Some (Hourly h)"
    and "distinct (map fst h)"
    and "set (map fst h) \<inter> set columnas_finales = {}"
    and "write_outcome ev a = Completes"
    and "files w a = None"
    and "files (snd (descargar_datos_historicos lib ev lat lon sd ed a w)) a = Some f"
    and "\<And>s ts d. to_datetime lib s = Inr ts \<Longrightarrow> Some d \<in> set ts \<Longrightarrow> valid_datetime d"
  shows "\<exists>fechas ts col.
           (''time'', fechas) \<in> set h \<and>
           to_datetime lib (infer_column lib fechas) = Inr ts \<and>
           csv_column f ''fecha_hora'' = Some col \<and>
           length col = length ts \<and>
           (\<forall>i < length ts.
              case ts ! i of
                None \<Rightarrow> col ! i = CNull
              | Some d \<Rightarrow>
                  col ! i = CStr (strftime ''%Y-%m-%dT%H:%M'' d) \<and>
                  formato_fecha_hora (strftime ''%Y-%m-%dT%H:%M'' d) \<and>
                  strptime_fecha_hora (strftime ''%Y-%m-%dT%H:%M'' d)
                    = Some (d\<lparr>second := 0\<rparr>) \<and>
                  strftime ''%Y-%m-%dT%H:%M'' (d\<lparr>second := 0\<rparr>)
                    = strftime ''%Y-%m-%dT%H:%M'' d)"
proof -
  let ?F = "''%Y-%m-%dT%H:%M''"
  from created_file [OF assms(1-7)] obtain df
    where t: "transformar lib h = Inr df"
      and c: "\<And>k s. (k, s) \<in> set df \<Longrightarrow> csv_column f k = Some s"
    by blast
  from transformar_columns(7) [OF t assms(3,4)] obtain fechas ts
    where m: "(''time'', fechas) \<in> set h"
      and td: "to_datetime lib (infer_column lib fechas) = Inr ts"
      and o: "(''fecha_hora'', dt_strftime ts ?F) \<in> set df"
    by blast
  let ?col = "dt_strftime ts ?F :: 'f series"
  have col: "csv_column f ''fecha_hora'' = Some ?col"
    using o by (rule c)
  have len: "length ?col = length ts"
    by (simp add: dt_strftime_def)
  have each: "\<forall>i < length ts.
      case ts ! i of
        None \<Rightarrow> ?col ! i = CNull
      | Some d \<Rightarrow>
          ?col ! i = CStr (strftime ?F d) \<and> formato_fecha_hora (strftime ?F d) \<and>
          strptime_fecha_hora (strftime ?F d) = Some (d\<lparr>second := 0\<rparr>) \<and>
          strftime ?F (d\<lparr>second := 0\<rparr>) = strftime ?F d"
  proof (intro allI impI)
    fix i assume i: "i < length ts"
    show "case ts ! i of
        None \<Rightarrow> ?col ! i = CNull
      | Some d \<Rightarrow>
          ?col ! i = CStr (strftime ?F d) \<and> formato_fecha_hora (strftime ?F d) \<and>
          strptime_fecha_hora (strftime ?F d) = Some (d\<lparr>second := 0\<rparr>) \<and>
          strftime ?F (d\<lparr>second := 0\<rparr>) = strftime ?F d"
    proof (cases "ts ! i")
      case None
      with i show ?thesis
        by (simp add: dt_strftime_def)
    next
      case (Some d)
      with i have "Some d \<in> set ts"
        by (metis nth_mem)
      with td have "valid_datetime d"
        by (rule assms(8))
      then have "strptime_fecha_hora (strftime ?F d) = Some (d\<lparr>second := 0\<rparr>)"
        by (rule strptime_strftime)
      with Some i show ?thesis
        by (simp add: dt_strftime_def formato_strftime strftime_seconds
            del: strftime.simps)
    qed
  qed
  from m td col len each show ?thesis
    by blast
qed

lemma to_datetime_b64_valid:
  "to_datetime lib_b64 s = Inr ts \<Longrightarrow> Some d \<in> set ts \<Longrightarrow> valid_datetime d"
  unfolding to_datetime_b64 by (rule iso_cells_valid)

theorem timestamps_are_formatted_witness:
  "requests_get env_ok \<lparr>url = api_url, query = params (LATITUD lib_b64)
      (LONGITUD lib_b64) FECHA_INICIO (FECHA_FIN env_ok)\<rparr> = Response respuesta_ok \<and>
   payload respuesta_ok = Some (Hourly hourly_ejemplo) \<and>
   distinct (map fst hourly_ejemplo) \<and>
   set (map fst hourly_ejemplo) \<inter> set columnas_finales = {} \<and>
   write_outcome env_ok ARCHIVO_SALIDA = Completes \<and>
   files mundo_vacio ARCHIVO_SALIDA = None \<and>
   files (snd (descargar_datos_historicos lib_b64 env_ok (LATITUD lib_b64) (LONGITUD lib_b64)
      FECHA_INICIO (FECHA_FIN env_ok) ARCHIVO_SALIDA mundo_vacio)) ARCHIVO_SALIDA
     = Some archivo_ejemplo \<and>
   csv_column archivo_ejemplo ''fecha_hora''
     = Some [CStr ''2024-01-01T00:00'', CStr ''2024-01-01T01:00''] \<and>
   formato_fecha_hora ''2024-01-01T01:00'' \<and>
   strptime_fecha_hora ''2024-01-01T01:00''
     = Some \<lparr>year = 2024, month = 1, day = 1, hour = 1, minute = 0, second = 0\<rparr> \<and>
   strftime ''%Y-%m-%dT%H:%M''
       \<lparr>year = 2024, month = 1, day = 1, hour = 1, minute = 0, second = 0\<rparr>
     = ''2024-01-01T01:00''"
  using timestamps_are_formatted [OF entorno_ejemplo(1,2) hourly_ejemplo_keys
      entorno_ejemplo(3,4) descargar_ejemplo to_datetime_b64_valid]
    entorno_ejemplo hourly_ejemplo_keys descargar_ejemplo
  by (simp add: archivo_ejemplo_def csv_column_def columnas_finales_def
      formato_fecha_hora_def is_digit_def strptime_ejemplo_1 directive_def zpad2 zpad4
      digit_def)

lemma transformar_hora_nula:
  "transformar lib_b64 hourly_hora_nula
     = Inr (zip columnas_finales
         [[CStr ''2024-01-01T00:00'', CNull],
          [CFloat (25 / 2), CNull], [CInt 85, CInt 90], [CFloat (39 / 4), CFloat (19 / 2)],
          [CFloat (4053 / 4), CFloat 1013], [CFloat 0, CFloat (1 / 2)],
          [CFloat 36, CFloat 9], [CFloat 72, CFloat 18], [CInt 270, CInt 180],
          [CInt 3, CInt 61]])"
  by (simp add: transformar_def andThen_Inr_simp andThen_Inl_simp DataFrame_def len_def
      infer_column_def is_str_def is_bool_def is_float_def is_null_def to_float64_simps
      getitem_def velocidad_ejemplo rafaga_ejemplo setitem_def rename_def rename_label_def
      renombrar_def select_def columnas_finales_def viento_direccion_def hourly_ejemplo_def
      hourly_hora_nula_def to_datetime_b64 dt_strftime_def strptime_ejemplo_0
      directive_def zpad2 zpad4 digit_def
      cong: andThen_weak_cong)

text \<open>
  C5 as stated does not hold: a value of \<^verbatim>\<open>fecha_hora\<close> can be empty. For an answer whose
  \<^verbatim>\<open>time\<close> array holds a null, \<^verbatim>\<open>pd.to_datetime\<close> gives NaT, which \<^verbatim>\<open>dt.strftime\<close> turns into
  a missing value; the file is written, with an empty field for that record.
\<close>

theorem null_time_is_written_empty:
  "(''time'', [CStr ''2024-01-01T00:00'', CNull]) \<in> set hourly_hora_nula \<and>
   payload respuesta_hora_nula = Some (Hourly hourly_hora_nula) \<and>
   (\<exists>f. files (snd (descargar_datos_historicos lib_b64 env_hora_nula (LATITUD lib_b64)
            (LONGITUD lib_b64) FECHA_INICIO (FECHA_FIN env_hora_nula) ARCHIVO_SALIDA
            mundo_vacio)) ARCHIVO_SALIDA = Some f \<and>
        csv_column f ''fecha_hora'' = Some [CStr ''2024-01-01T00:00'', CNull])"
proof -
  have r: "requests_get env_hora_nula \<lparr>url = api_url, query = params (LATITUD lib_b64)
      (LONGITUD lib_b64) FECHA_INICIO (FECHA_FIN env_hora_nula)\<rparr>
      = Response respuesta_hora_nula"
    by (simp add: env_hora_nula_def)
  have s: "raise_for_status respuesta_hora_nula = Inr ()"
    by (simp add: raise_for_status_def respuesta_hora_nula_def)
  have h: "payload respuesta_hora_nula = Some (Hourly hourly_hora_nula)"
    by (simp add: respuesta_hora_nula_def)
  obtain df where t: "transformar lib_b64 hourly_hora_nula = Inr df"
    using transformar_hora_nula by blast
  have p: "\<And>m. printable env_hora_nula m"
    by (simp add: printable_def env_hora_nula_def env_ok_def)
  have c: "write_outcome env_hora_nula ARCHIVO_SALIDA = Completes"
    by (simp add: env_hora_nula_def env_ok_def)
  have f: "files (snd (descargar_datos_historicos lib_b64 env_hora_nula (LATITUD lib_b64)
            (LONGITUD lib_b64) FECHA_INICIO (FECHA_FIN env_hora_nula) ARCHIVO_SALIDA
            mundo_vacio)) ARCHIVO_SALIDA = Some (csv_of df)"
    by (simp add: descargar_transformed [OF r s h t p] c files_logged)
  have "csv_column (csv_of df) ''fecha_hora'' = Some [CStr ''2024-01-01T00:00'', CNull]"
    using t
    by (auto simp add: transformar_hora_nula csv_of_def table_rows_def len_def
        csv_column_def columnas_finales_def viento_direccion_def upt_rec)
  with f h show ?thesis
    by (simp add: hourly_hora_nula_def hourly_ejemplo_def)
qed

subsection \<open>An answer without records\<close>

lemma renombrar_covers:
  assumes "dst \<in> set columnas_finales"
  shows "\<exists>src \<in> set (''time'' # variables_horarias). map_of renombrar src = Some dst"
  using assms
  by (auto simp: columnas_finales_def renombrar_def variables_horarias_def viento_direccion_def)

lemma transformar_sin_filas:
  fixes lib :: "'f library" and h :: "(string \<times> 'f cell list) list"
  assumes d: "distinct (map fst h)"
    and x: "set (map fst h) \<inter> set columnas_finales = {}"
    and k: "set (''time'' # variables_horarias) \<subseteq> set (map fst h)"
    and e: "\<forall>c \<in> set h. snd c = []"
    and td: "to_datetime lib [] = Inr []"
  shows "\<exists>df. transformar lib h = Inr df"
proof -
  let ?ws = "''wind_speed_10m''" and ?wg = "''wind_gusts_10m''" and ?fh = "''fecha_hora''"
  let ?k = "of_lit lib (36 / 10)"
  have mem: "\<And>n. n \<in> set (map fst h) \<Longrightarrow> (n, []) \<in> set h"
    using e by force
  have ne: "h \<noteq> []"
    using k by auto
  have l0: "len h = 0"
    using ne e by (cases h) (simp_all add: len_def)
  have "map (\<lambda>c. (fst c, infer_column lib (snd c))) h = map (\<lambda>c. c) h"
    using e by (intro map_cong refl) (simp add: infer_column_def prod_eq_iff)
  then have c0: "DataFrame lib h = Inr h"
    using e l0 by (simp add: DataFrame_def list_all_iff)
  have ws: "?ws \<in> set (map fst h)" and wg: "?wg \<in> set (map fst h)"
    and ti: "''time'' \<in> set (map fst h)"
    using k by (simp_all add: variables_horarias_def)
  have g1: "getitem h ?ws = Inr []"
    using d mem [OF ws] by (rule getitem_distinct)
  have m1: "\<And>k. series_mul lib [] k = Inr []"
    by (simp add: series_mul_def)
  have same: "\<And>n. map (\<lambda>c. if fst c = n then (n, []) else c) h = map (\<lambda>c. c) h"
    using e by (intro map_cong refl) (simp add: prod_eq_iff)
  have s1: "setitem h ?ws [] = Inr h"
    using ws l0 same [of ?ws] by (simp add: setitem_def)
  have g2: "getitem h ?wg = Inr []"
    using d mem [OF wg] by (rule getitem_distinct)
  have s2: "setitem h ?wg [] = Inr h"
    using wg l0 same [of ?wg] by (simp add: setitem_def)
  have all: "list_all (\<lambda>n. n \<in> set (map fst (rename h renombrar))) columnas_finales"
    unfolding list_all_iff
  proof
    fix dst assume "dst \<in> set columnas_finales"
    then obtain src where s: "src \<in> set (''time'' # variables_horarias)"
      and r: "map_of renombrar src = Some dst"
      using renombrar_covers by blast
    from s k have "(src, []) \<in> set h"
      using mem by blast
    then have "(dst, []) \<in> set (rename h renombrar)"
      using r by (rule renamed_member(1))
    then show "dst \<in> set (map fst (rename h renombrar))"
      by force
  qed
  then obtain df3 where sel: "select (rename h renombrar) columnas_finales = Inr df3"
    by (simp add: select_def)
  have "set (map fst h) \<inter> snd ` set renombrar = {}"
    using x targets by (metis set_map)
  moreover have "distinct (map snd renombrar)"
    using distinct_columnas_finales by (simp only: targets)
  ultimately have inj: "inj_on (rename_label renombrar) (set (map fst h))"
    by (rule rename_label_inj_on [rotated])
  have "distinct (map (rename_label renombrar) (map fst h))"
    using d inj by (rule distinct_map [THEN iffD2, OF conjI])
  then have dr: "distinct (map fst (rename h renombrar))"
    by (simp only: labels_rename)
  have lab3: "map fst df3 = columnas_finales"
    and set3: "set df3 = {c \<in> set (rename h renombrar). fst c \<in> set columnas_finales}"
    using select_distinct [OF dr sel] by simp_all
  have e3: "\<forall>c \<in> set df3. snd c = []"
    using set3 e by (auto simp: rename_def)
  have ne3: "df3 \<noteq> []"
    using lab3 by (auto simp: columnas_finales_def)
  have l3: "len df3 = 0"
    using ne3 e3 by (cases df3) (simp_all add: len_def)
  have "(''time'', []) \<in> set h"
    using ti by (rule mem)
  moreover have "map_of renombrar ''time'' = Some ?fh"
    by (simp add: renombrar_def)
  ultimately have "(?fh, []) \<in> set (rename h renombrar)" and "?fh \<in> set columnas_finales"
    by (rule renamed_member)+
  then have fh3: "(?fh, []) \<in> set df3"
    using set3 by simp
  have d3: "distinct (map fst df3)"
    using distinct_columnas_finales by (simp only: lab3)
  have g3: "getitem df3 ?fh = Inr []"
    using d3 fh3 by (rule getitem_distinct)
  have "?fh \<in> set (map fst df3)"
    using fh3 by force
  then have s3: "\<exists>df. setitem df3 ?fh [] = Inr df"
    using l3 by (simp add: setitem_def)
  have st: "(dt_strftime [] ''%Y-%m-%dT%H:%M'' :: 'f series) = []"
    by (simp add: dt_strftime_def)
  show ?thesis
    using s3
    by (simp add: transformar_def andThen_Inr_simp c0 g1 m1 s1 g2 s2 sel g3 td st
        cong: andThen_weak_cong)
qed

lemma descargar_completes:
  assumes "requests_get ev \<lparr>url = api_url, query = params lat lon sd ed\<rparr> = Response r"
    and "raise_for_status r = Inr ()"
    and "payload r = Some (Hourly h)"
    and "transformar lib h = Inr df"
    and "write_outcome ev a = Completes"
    and "printable ev (Solicitando sd ed)"
    and "\<And>m. printed_in_try m \<Longrightarrow> printable ev m"
  shows "descargar_datos_historicos lib ev lat lon sd ed a w =
     (None,
      logged (Tail (map fst df) (tail 3 (table_rows df)))
        (logged (RegistrosGuardados (len df) a)
          ((logged DatosRecibidos (logged (Solicitando sd ed) w))
             \<lparr>files := (files w)(a \<mapsto> csv_of df)\<rparr>)))"
proof -
  have p: "\<And>m w. printed_in_try m \<Longrightarrow> print ev m w = Inr (logged m w)"
    using assms(7) by (simp add: print_ok)
  have q: "printable ev DatosRecibidos"
    by (simp add: assms(7))
  show ?thesis
    by (simp add: descargar_datos_historicos_def print_ok [OF assms(6)] p
        try_body_transformed [OF assms(1,2,3,4) q] to_csv_def assms(5) files_logged)
qed

text \<open>
  C8. When the server answers with an \<^verbatim>\<open>hourly\<close> object that has the ten keys of the
  request (and none of the output names) and whose arrays are all empty, and the
  console takes the messages and the write completes, then the function returns without
  an error message, and the output file holds the header line of the ten columns and no
  record. (\<^verbatim>\<open>pd.to_datetime\<close> is taken to map the empty column to the empty column.)
\<close>

theorem empty_arrays_give_header_only:
  fixes lib :: "'f library"
  assumes "requests_get ev \<lparr>url = api_url, query = params lat lon sd ed\<rparr> = Response r"
    and "\<not> (400 \<le> status_code r \<and> status_code r < 600)"
    and "payload r = Some (Hourly h)"
    and "distinct (map fst h)"
    and "set (map fst h) \<inter> set columnas_finales = {}"
    and "set (''time'' # variables_horarias) \<subseteq> set (map fst h)"
    and "\<forall>c \<in> set h. snd c = []"
    and "to_datetime lib [] = Inr []"
    and "write_outcome ev a = Completes"
    and "printable ev (Solicitando sd ed)"
    and "\<And>m. printed_in_try m \<Longrightarrow> printable ev m"
  shows "fst (descargar_datos_historicos lib ev lat lon sd ed a w) = None \<and>
         files (snd (descargar_datos_historicos lib ev lat lon sd ed a w))
           = (files w)(a \<mapsto> \<lparr>header = columnas_finales, rows = []\<rparr>) \<and>
         console (snd (descargar_datos_historicos lib ev lat lon sd ed a w))
           = console w @ [Solicitando sd ed, DatosRecibidos, RegistrosGuardados 0 a,
                          Tail columnas_finales []]"
proof -
  from transformar_sin_filas [OF assms(4,5,6,7,8)] obtain df
    where t: "transformar lib h = Inr df"
    by blast
  have l: "map fst df = columnas_finales"
    using t assms(4,5) by (rule transformar_columns(1))
  have "h \<noteq> []"
    using assms(6) by auto
  then have "len h = 0"
    using assms(7) by (cases h) (simp_all add: len_def)
  then have n: "len df = 0"
    using transformar_columns(3) [OF t assms(4,5)] by simp
  have s: "raise_for_status r = Inr ()"
    using assms(2) by (simp add: raise_for_status_def)
  show ?thesis
    by (simp add: descargar_completes [OF assms(1) s assms(3) t assms(9,10,11)]
        files_logged console_logged csv_of_def table_rows_def l n tail_def)
qed

theorem empty_arrays_give_header_only_witness:
  "requests_get env_sin_filas \<lparr>url = api_url, query = params (LATITUD lib_b64)
      (LONGITUD lib_b64) FECHA_INICIO (FECHA_FIN env_sin_filas)\<rparr>
     = Response respuesta_sin_filas \<and>
   status_code respuesta_sin_filas = 200 \<and>
   payload respuesta_sin_filas = Some (Hourly hourly_sin_filas) \<and>
   map fst hourly_sin_filas = ''time'' # variables_horarias \<and>
   list_all (\<lambda>c. snd c = []) hourly_sin_filas \<and>
   to_datetime lib_b64 [] = Inr [] \<and>
   write_outcome env_sin_filas ARCHIVO_SALIDA = Completes \<and>
   (\<forall>m. printable env_sin_filas m) \<and>
   fst (descargar_datos_historicos lib_b64 env_sin_filas (LATITUD lib_b64) (LONGITUD lib_b64)
      FECHA_INICIO (FECHA_FIN env_sin_filas) ARCHIVO_SALIDA mundo_vacio) = None \<and>
   files (snd (descargar_datos_historicos lib_b64 env_sin_filas (LATITUD lib_b64)
      (LONGITUD lib_b64) FECHA_INICIO (FECHA_FIN env_sin_filas) ARCHIVO_SALIDA mundo_vacio))
     = (files mundo_vacio)(ARCHIVO_SALIDA \<mapsto> \<lparr>header = columnas_finales, rows = []\<rparr>) \<and>
   console (snd (descargar_datos_historicos lib_b64 env_sin_filas (LATITUD lib_b64)
      (LONGITUD lib_b64) FECHA_INICIO (FECHA_FIN env_sin_filas) ARCHIVO_SALIDA mundo_vacio))
     = [Solicitando FECHA_INICIO (FECHA_FIN env_sin_filas), DatosRecibidos,
        RegistrosGuardados 0 ARCHIVO_SALIDA, Tail columnas_finales []]"
proof -
  have r: "requests_get env_sin_filas \<lparr>url = api_url, query = params (LATITUD lib_b64)
      (LONGITUD lib_b64) FECHA_INICIO (FECHA_FIN env_sin_filas)\<rparr>
     = Response respuesta_sin_filas"
    by (simp add: env_sin_filas_def)
  have s: "\<not> (400 \<le> status_code respuesta_sin_filas \<and> status_code respuesta_sin_filas < 600)"
    and s': "status_code respuesta_sin_filas = 200"
    by (simp_all add: respuesta_sin_filas_def)
  have h: "payload respuesta_sin_filas = Some (Hourly hourly_sin_filas)"
    by (simp add: respuesta_sin_filas_def)
  have keys: "map fst hourly_sin_filas = ''time'' # variables_horarias"
    by (simp add: hourly_sin_filas_def comp_def)
  have d: "distinct (map fst hourly_sin_filas)"
    unfolding keys by (simp add: variables_horarias_def)
  have x: "set (map fst hourly_sin_filas) \<inter> set columnas_finales = {}"
    unfolding keys by (simp add: variables_horarias_def columnas_finales_def viento_direccion_def)
  have k: "set (''time'' # variables_horarias) \<subseteq> set (map fst hourly_sin_filas)"
    unfolding keys by simp
  have e: "\<forall>c \<in> set hourly_sin_filas. snd c = []"
    by (auto simp: hourly_sin_filas_def)
  have e': "list_all (\<lambda>c. snd c = []) hourly_sin_filas"
    by (simp add: hourly_sin_filas_def variables_horarias_def)
  have td: "to_datetime lib_b64 [] = Inr []"
    by (simp add: to_datetime_b64)
  have c: "write_outcome env_sin_filas ARCHIVO_SALIDA = Completes"
    by (simp add: env_sin_filas_def env_ok_def)
  have p: "\<And>m. printable env_sin_filas m"
    by (simp add: printable_def env_sin_filas_def env_ok_def)
  from empty_arrays_give_header_only [OF r s h d x k e td c p p, of mundo_vacio]
  show ?thesis
    using r s' h keys e' td c p by (simp add: mundo_vacio_def)
qed

end
